theory Spec2Isabelle
  imports Main "HOL-Library.Sublist"
begin

section \<open>Values exchanged with the gateway\<close>

text \<open>
  The agent talks JSON to trik-server and keeps the decoded values as Python objects:
  \<^verbatim>\<open>None\<close>, \<^verbatim>\<open>bool\<close>, \<^verbatim>\<open>int\<close>, \<^verbatim>\<open>str\<close>, \<^verbatim>\<open>list\<close> and \<^verbatim>\<open>dict\<close>. A dict keeps
  its insertion order, so it is an association list; a key is looked up with \<open>map_of\<close>.
  A JSON number with a fraction would decode to a \<^verbatim>\<open>float\<close>; floats are left out of
  the model.
\<close>

datatype json =
    JNull
  | JBool bool
  | JInt int
  | JStr string
  | JList "json list"
  | JObj "(string \<times> json) list"

text \<open>Python's truth value of an object, as used by \<^verbatim>\<open>if x:\<close>, \<^verbatim>\<open>not x\<close> and \<^verbatim>\<open>x or y\<close>.\<close>

fun truthy :: "json \<Rightarrow> bool" where
  "truthy JNull = False"
| "truthy (JBool b) = b"
| "truthy (JInt n) = (n \<noteq> 0)"
| "truthy (JStr s) = (s \<noteq> [])"
| "truthy (JList xs) = (xs \<noteq> [])"
| "truthy (JObj kvs) = (kvs \<noteq> [])"

text \<open>The exceptions the modelled code can raise.\<close>

datatype error =
    ConnectionError
  | JSONDecodeError
  | HTTPError
  | AttributeError
  | KeyError
  | TypeError
  | IndexError
  | ValueError
  | ValidationError
  | NameError
  | GraphRecursionError

section \<open>Passthrough content tracking (agent.py)\<close>

text \<open>
  \<^verbatim>\<open>_last_passthrough_content: Optional[tuple[str, dict]] = None\<close> is a module-level global.
  The two functions that touch it take the global and return its new value. The content and
  the metadata are whatever the gateway sent, so both are \<open>json\<close>.
\<close>

type_synonym slot = "(json \<times> json) option"

definition get_last_passthrough_content :: "slot \<Rightarrow> (json \<times> json) option \<times> slot" where
  "get_last_passthrough_content g = (let content = g in (content, None))"

definition handle_passthrough :: "json \<Rightarrow> json \<Rightarrow> slot \<Rightarrow> slot" where
  "handle_passthrough content metadata g = Some (content, metadata)"

section \<open>The world outside the process\<close>

text \<open>
  Every HTTP exchange goes through \<^verbatim>\<open>requests.Session\<close>. The gateway is not part of the
  repository, so its answers are an oracle: \<open>pending\<close> lists what the next calls will get
  (an exception of the transport, or a response; once the list is used up the gateway is
  unreachable), \<open>sent\<close> records what was transmitted.
  A response carries \<^verbatim>\<open>response.ok\<close> and the decoded body; \<open>None\<close> is a body that
  \<^verbatim>\<open>response.json()\<close> cannot decode. Request headers are not modelled.
  \<open>console\<close> collects what \<^verbatim>\<open>print\<close> writes, one constructor for each format string.
\<close>

record http_response =
  ok :: bool
  body :: "json option"

datatype request = Get string | Post string json

datatype console_line =
    DebugRequestFailed json
  | ConnectedTo json
  | LoadedTriksCount json
  | TriksLoaded "string list"
  | NoTriksConfigured
  | ErrorLoadingTriks error
  | MakeSureServerRunning string
  | ReasonValidation bool
  | ProcessingRefund string
  | RefundReason string
  | FindingOrder string
  | LookingUp string

record world =
  pending :: "(error + http_response) list"
  sent :: "request list"
  last_passthrough_content :: slot
  console :: "console_line list"

definition http :: "request \<Rightarrow> world \<Rightarrow> (error + http_response) \<times> world" where
  "http r w =
     (case pending w of
        [] \<Rightarrow> (Inl ConnectionError, w\<lparr>sent := sent w @ [r]\<rparr>)
      | x # xs \<Rightarrow> (x, w\<lparr>pending := xs, sent := sent w @ [r]\<rparr>))"

definition py_print :: "console_line \<Rightarrow> world \<Rightarrow> world" where
  "py_print line w = w\<lparr>console := console w @ [line]\<rparr>"

text \<open>
  \<^verbatim>\<open>str(x)\<close> inside an f-string: a \<^verbatim>\<open>str\<close> is itself; how Python prints any other
  object is the parameter \<open>fmt\<close>.
\<close>

definition py_str :: "(json \<Rightarrow> string) \<Rightarrow> json \<Rightarrow> string" where
  "py_str fmt v = (case v of JStr s \<Rightarrow> s | _ \<Rightarrow> fmt v)"

text \<open>\<^verbatim>\<open>d.get(k, default)\<close> on a dict.\<close>

definition get_or :: "(string \<times> json) list \<Rightarrow> string \<Rightarrow> json \<Rightarrow> json" where
  "get_or kvs k d = (case map_of kvs k of None \<Rightarrow> d | Some v \<Rightarrow> v)"

text \<open>The truth value of \<^verbatim>\<open>d.get(k)\<close>: a missing key gives \<^verbatim>\<open>None\<close>, which is false.\<close>

definition truthy_opt :: "json option \<Rightarrow> bool" where
  "truthy_opt v = (case v of None \<Rightarrow> False | Some x \<Rightarrow> truthy x)"

section \<open>The gateway client (trik\_client.py)\<close>

text \<open>
  \<^verbatim>\<open>TrikClient\<close>: the base URL, the passthrough callback and \<^verbatim>\<open>self._session_id\<close>.
  The callback acts on the world; the session id is annotated \<^verbatim>\<open>Optional[str]\<close> but
  holds whatever the gateway sent under \<^verbatim>\<open>sessionId\<close>.
\<close>

record client =
  base_url :: string
  on_passthrough :: "(json \<Rightarrow> json \<Rightarrow> world \<Rightarrow> world) option"
  session_id :: "json option"

definition rstrip_slash :: "string \<Rightarrow> string" where
  "rstrip_slash s = rev (dropWhile (\<lambda>c. c = CHR ''/'') (rev s))"

definition TrikClient :: "string \<Rightarrow> (json \<Rightarrow> json \<Rightarrow> world \<Rightarrow> world) option \<Rightarrow> client" where
  "TrikClient url cb = \<lparr>base_url = rstrip_slash url, on_passthrough = cb, session_id = None\<rparr>"

text \<open>Lines 59 to 64 of \<^verbatim>\<open>execute\<close>: the payload, with the caller's session id or the stored one.\<close>

definition execute_payload :: "string \<Rightarrow> json \<Rightarrow> string option \<Rightarrow> client \<Rightarrow> json" where
  "execute_payload tool input_data sid_arg c =
     (let payload = [(''tool'', JStr tool), (''input'', input_data)];
          sid = (case sid_arg of
                   None \<Rightarrow> session_id c
                 | Some s \<Rightarrow> if s \<noteq> [] then Some (JStr s) else session_id c)
      in if truthy_opt sid then JObj (payload @ [(''sessionId'', the sid)]) else JObj payload)"

definition execute ::
  "string \<Rightarrow> json \<Rightarrow> string option \<Rightarrow> client \<Rightarrow> world \<Rightarrow> (error + json) \<times> client \<times> world" where
  "execute tool input_data sid_arg c w =
     (case http (Post (base_url c @ ''/api/v1/execute'') (execute_payload tool input_data sid_arg c)) w of
        (Inl e, w') \<Rightarrow> (Inl e, c, w')
      | (Inr response, w') \<Rightarrow>
          (case body response of
             None \<Rightarrow> (Inl JSONDecodeError, c, w')
           | Some result \<Rightarrow>
               if \<not> ok response then (Inr result, c, py_print (DebugRequestFailed input_data) w')
               else (case result of
                       JObj kvs \<Rightarrow>
                         if truthy_opt (map_of kvs ''sessionId'')
                         then (Inr result, c\<lparr>session_id := map_of kvs ''sessionId''\<rparr>, w')
                         else (Inr result, c, w')
                     | _ \<Rightarrow> (Inl AttributeError, c, w'))))"

definition get_content ::
  "(json \<Rightarrow> string) \<Rightarrow> json \<Rightarrow> client \<Rightarrow> world \<Rightarrow> (error + json) \<times> world" where
  "get_content fmt ref c w =
     (case http (Get (base_url c @ ''/api/v1/content/'' @ py_str fmt ref)) w of
        (Inl e, w') \<Rightarrow> (Inl e, w')
      | (Inr response, w') \<Rightarrow>
          if \<not> ok response then (Inl HTTPError, w')
          else (case body response of
                  None \<Rightarrow> (Inl JSONDecodeError, w')
                | Some j \<Rightarrow> (Inr j, w')))"

text \<open>
  The passthrough branch of \<^verbatim>\<open>execute_tool\<close> (lines 129 to 145), given the decoded
  envelope \<open>kvs\<close>.
\<close>

definition deliver_passthrough ::
  "(json \<Rightarrow> string) \<Rightarrow> (string \<times> json) list \<Rightarrow> client \<Rightarrow> world \<Rightarrow> (error + json) \<times> world" where
  "deliver_passthrough fmt kvs c w =
     (case map_of kvs ''userContentRef'' of
        None \<Rightarrow> (Inr (JStr ''Content delivered to user.''), w)
      | Some content_ref \<Rightarrow>
          if \<not> truthy content_ref then (Inr (JStr ''Content delivered to user.''), w)
          else (case get_content fmt content_ref c w of
                  (Inl e, w') \<Rightarrow> (Inl e, w')
                | (Inr (JObj cr), w') \<Rightarrow>
                    if \<not> truthy_opt (map_of cr ''success'')
                    then (Inr (JStr ''Content delivered to user.''), w')
                    else (case map_of cr ''content'' of
                            None \<Rightarrow> (Inl KeyError, w')
                          | Some (JObj content_data) \<Rightarrow>
                              (let content_text = get_or content_data ''content'' (JStr []);
                                   metadata = get_or content_data ''metadata'' (JObj []);
                                   w'' = (case on_passthrough c of
                                            None \<Rightarrow> w'
                                          | Some callback \<Rightarrow> callback content_text metadata w');
                                   content_type = get_or kvs ''contentType'' (JStr ''content'')
                               in (Inr (JStr (''['' @ py_str fmt content_type @ '' delivered to user]'')), w''))
                          | Some _ \<Rightarrow> (Inl AttributeError, w'))
                | (Inr _, w') \<Rightarrow> (Inl AttributeError, w')))"

text \<open>\<^verbatim>\<open>{k: v for k, v in kwargs.items() if v is not None}\<close>\<close>

definition filtered_input :: "(string \<times> json) list \<Rightarrow> (string \<times> json) list" where
  "filtered_input kwargs = filter (\<lambda>(k, v). v \<noteq> JNull) kwargs"

definition execute_tool ::
  "(json \<Rightarrow> string) \<Rightarrow> string \<Rightarrow> (string \<times> json) list \<Rightarrow> client \<Rightarrow> world
     \<Rightarrow> (error + json) \<times> client \<times> world" where
  "execute_tool fmt tool_name kwargs c w =
     (case execute tool_name (JObj (filtered_input kwargs)) None c w of
        (Inl e, c', w') \<Rightarrow> (Inl e, c', w')
      | (Inr (JObj kvs), c', w') \<Rightarrow>
          if \<not> truthy_opt (map_of kvs ''success'')
          then (Inr (JStr (''Error: '' @ py_str fmt (get_or kvs ''error'' (JStr ''Unknown error'')))), c', w')
          else if map_of kvs ''responseMode'' = Some (JStr ''template'')
          then (Inr (get_or kvs ''response'' (JStr ''Action completed.'')), c', w')
          else if map_of kvs ''responseMode'' = Some (JStr ''passthrough'')
          then (case deliver_passthrough fmt kvs c' w' of (r, w'') \<Rightarrow> (r, c', w''))
          else (Inr (get_or kvs ''response'' (JStr ''Action completed.'')), c', w')
      | (Inr _, c', w') \<Rightarrow> (Inl AttributeError, c', w'))"


text \<open>
  Iterating over a decoded value (\<^verbatim>\<open>for x in v\<close>, \<^verbatim>\<open>set(v)\<close>): a list gives its
  elements, a string its characters, a dict its keys; anything else raises.
  \<^verbatim>\<open>v["key"]\<close> needs a dict that has the key.
\<close>

definition py_iter :: "json \<Rightarrow> error + json list" where
  "py_iter v =
     (case v of
        JList xs \<Rightarrow> Inr xs
      | JStr s \<Rightarrow> Inr (map (\<lambda>ch. JStr [ch]) s)
      | JObj kvs \<Rightarrow> Inr (map (\<lambda>(k, _). JStr k) kvs)
      | _ \<Rightarrow> Inl TypeError)"

definition py_getitem :: "json \<Rightarrow> string \<Rightarrow> error + json" where
  "py_getitem v k =
     (case v of
        JObj kvs \<Rightarrow> (case map_of kvs k of None \<Rightarrow> Inl KeyError | Some x \<Rightarrow> Inr x)
      | _ \<Rightarrow> Inl TypeError)"

text \<open>A list or a dict cannot be hashed, so it can be neither a set element nor a dict key.\<close>

definition hashable :: "json \<Rightarrow> bool" where
  "hashable v = (case v of JList _ \<Rightarrow> False | JObj _ \<Rightarrow> False | _ \<Rightarrow> True)"

subsection \<open>Argument schemas\<close>

text \<open>
  \<^verbatim>\<open>_build_args_schema\<close> turns a JSON schema into the field table handed to pydantic's
  \<^verbatim>\<open>create_model\<close>: a required field is \<^verbatim>\<open>(python_type, Field(...))\<close>, any other is
  \<^verbatim>\<open>(Optional[python_type], Field(default=None, ...))\<close>. The class that pydantic
  builds from the table is library code, and pydantic refuses some tables (a field name with
  a leading underscore, for one). The parameter \<open>create_model\<close> is what
  \<^verbatim>\<open>create_model("ToolArgs", **fields)\<close> raises for a table, if anything; when it raises
  nothing the table stands for the class.
\<close>

datatype py_type = PyStr | PyInt | PyFloat | PyBool | PyList | PyDict

record field =
  python_type :: py_type
  default_none :: bool
  field_description :: json

definition type_map :: "json \<Rightarrow> py_type" where
  "type_map json_type =
     (if json_type = JStr ''string'' then PyStr
      else if json_type = JStr ''integer'' then PyInt
      else if json_type = JStr ''number'' then PyFloat
      else if json_type = JStr ''boolean'' then PyBool
      else if json_type = JStr ''array'' then PyList
      else if json_type = JStr ''object'' then PyDict
      else PyStr)"

fun build_fields :: "json list \<Rightarrow> (string \<times> json) list \<Rightarrow> error + (string \<times> field) list" where
  "build_fields required [] = Inr []"
| "build_fields required ((prop_name, prop_schema) # props) =
     (case prop_schema of
        JObj ps \<Rightarrow>
          (let json_type = get_or ps ''type'' (JStr ''string'') in
           if \<not> hashable json_type then Inl TypeError
           else
             (let fld = \<lparr>python_type = type_map json_type,
                         default_none = (JStr prop_name \<notin> set required),
                         field_description = get_or ps ''description'' (JStr [])\<rparr>
              in case build_fields required props of
                   Inl e \<Rightarrow> Inl e
                 | Inr flds \<Rightarrow> Inr ((prop_name, fld) # flds)))
      | _ \<Rightarrow> Inl AttributeError)"

definition build_args_schema ::
  "((string \<times> field) list \<Rightarrow> error option) \<Rightarrow> json \<Rightarrow> error + (string \<times> field) list option" where
  "build_args_schema create_model input_schema =
     (if \<not> truthy input_schema then Inr None
      else case input_schema of
        JObj kvs \<Rightarrow>
          if map_of kvs ''type'' \<noteq> Some (JStr ''object'') then Inr None
          else
            (let properties = get_or kvs ''properties'' (JObj []) in
             case py_iter (get_or kvs ''required'' (JList [])) of
               Inl e \<Rightarrow> Inl e
             | Inr required \<Rightarrow>
                 if \<not> list_all hashable required then Inl TypeError
                 else if \<not> truthy properties then Inr None
                 else (case properties of
                         JObj props \<Rightarrow>
                           (case build_fields required props of
                              Inl e \<Rightarrow> Inl e
                            | Inr flds \<Rightarrow>
                                (case create_model flds of
                                   Some e \<Rightarrow> Inl e
                                 | None \<Rightarrow> Inr (Some flds)))
                       | _ \<Rightarrow> Inl AttributeError))
      | _ \<Rightarrow> Inl AttributeError)"

subsection \<open>Tools\<close>

text \<open>
  A LangChain tool, as far as the agent uses it: the name shown to the model, the argument
  schema handed to LangChain (with \<open>None\<close> LangChain infers one from the function's
  signature), and the function behind it. A built-in tool runs in the process; a gateway
  tool is the closure \<^verbatim>\<open>make_tool_func(name)\<close>, which remembers the name it was made for.
  The description text is presentation only and is not kept.
\<close>

datatype builtin = RequestRefund | FindOrder | GetProjectDetails

datatype handler = Builtin builtin | TrikFunc string

record tool =
  tool_name :: string
  args_schema :: "(string \<times> field) list option"
  func :: handler

definition replace_colon :: "string \<Rightarrow> string" where
  "replace_colon s = map (\<lambda>ch. if ch = CHR '':'' then CHR ''_'' else ch) s"

definition get_tools :: "client \<Rightarrow> world \<Rightarrow> (error + json) \<times> world" where
  "get_tools c w =
     (case http (Get (base_url c @ ''/api/v1/tools'')) w of
        (Inl e, w') \<Rightarrow> (Inl e, w')
      | (Inr response, w') \<Rightarrow>
          if \<not> ok response then (Inl HTTPError, w')
          else (case body response of
                  None \<Rightarrow> (Inl JSONDecodeError, w')
                | Some j \<Rightarrow> (Inr j, w')))"

definition health :: "client \<Rightarrow> world \<Rightarrow> (error + json) \<times> world" where
  "health c w =
     (case http (Get (base_url c @ ''/api/v1/health'')) w of
        (Inl e, w') \<Rightarrow> (Inl e, w')
      | (Inr response, w') \<Rightarrow>
          if \<not> ok response then (Inl HTTPError, w')
          else (case body response of
                  None \<Rightarrow> (Inl JSONDecodeError, w')
                | Some j \<Rightarrow> (Inr j, w')))"

text \<open>
  \<^verbatim>\<open>StructuredTool.from_function(func=..., name=..., description=..., args_schema=...)\<close>
  is LangChain's. Its contract, for a function without a docstring such as the closure
  \<^verbatim>\<open>tool_func\<close>: the tool is named \<^verbatim>\<open>name or func.__name__\<close>, so an empty name becomes
  "tool_func"; a description that is \<^verbatim>\<open>None\<close> has no docstring to fall back on and raises
  \<^verbatim>\<open>ValueError\<close>; any other description has \<^verbatim>\<open>.strip()\<close> called on it, which only a
  string has.
\<close>

definition from_function :: "handler \<Rightarrow> string \<Rightarrow> json \<Rightarrow> (string \<times> field) list option \<Rightarrow> error + tool" where
  "from_function f name description schema =
     (case description of
        JNull \<Rightarrow> Inl ValueError
      | JStr d \<Rightarrow>
          Inr \<lparr>tool_name = (if name = [] then ''tool_func'' else name), args_schema = schema, func = f\<rparr>
      | _ \<Rightarrow> Inl AttributeError)"

text \<open>The body of the loop of \<^verbatim>\<open>create_langchain_tools\<close>, for one \<^verbatim>\<open>tool_def\<close>.\<close>

definition make_tool :: "((string \<times> field) list \<Rightarrow> error option) \<Rightarrow> json \<Rightarrow> error + tool" where
  "make_tool create_model tool_def =
     (case tool_def of
        JObj kvs \<Rightarrow>
          (case map_of kvs ''name'' of
             None \<Rightarrow> Inl KeyError
           | Some name \<Rightarrow>
               (let description = get_or kvs ''description'' (JStr []);
                    input_schema = get_or kvs ''inputSchema'' (JObj [])
                in case build_args_schema create_model input_schema of
                     Inl e \<Rightarrow> Inl e
                   | Inr schema \<Rightarrow>
                       (case name of
                          JStr n \<Rightarrow> from_function (TrikFunc n) (replace_colon n) description schema
                        | _ \<Rightarrow> Inl AttributeError)))
      | _ \<Rightarrow> Inl TypeError)"

fun make_tools :: "((string \<times> field) list \<Rightarrow> error option) \<Rightarrow> json list \<Rightarrow> error + tool list" where
  "make_tools create_model [] = Inr []"
| "make_tools create_model (tool_def # defs) =
     (case make_tool create_model tool_def of
        Inl e \<Rightarrow> Inl e
      | Inr t \<Rightarrow>
          (case make_tools create_model defs of Inl e \<Rightarrow> Inl e | Inr ts \<Rightarrow> Inr (t # ts)))"

definition create_langchain_tools ::
  "((string \<times> field) list \<Rightarrow> error option) \<Rightarrow> client \<Rightarrow> world \<Rightarrow> (error + tool list) \<times> world" where
  "create_langchain_tools create_model c w =
     (case get_tools c w of
        (Inl e, w') \<Rightarrow> (Inl e, w')
      | (Inr (JObj tr), w') \<Rightarrow>
          (case py_iter (get_or tr ''tools'' (JList [])) of
             Inl e \<Rightarrow> (Inl e, w')
           | Inr defs \<Rightarrow> (make_tools create_model defs, w'))
      | (Inr _, w') \<Rightarrow> (Inl AttributeError, w'))"

text \<open>
  Calling a gateway tool runs the closure \<^verbatim>\<open>tool_func(**kwargs)\<close>, that is
  \<^verbatim>\<open>self.execute_tool(name, **kwargs)\<close> on the client that made it. A keyword named
  \<^verbatim>\<open>self\<close> or \<^verbatim>\<open>tool_name\<close> collides with a parameter of \<^verbatim>\<open>execute_tool\<close>: Python
  raises \<^verbatim>\<open>TypeError\<close> before the method runs.
\<close>

definition tool_func ::
  "(json \<Rightarrow> string) \<Rightarrow> string \<Rightarrow> (string \<times> json) list \<Rightarrow> client \<Rightarrow> world
     \<Rightarrow> (error + json) \<times> client \<times> world" where
  "tool_func fmt name kwargs c w =
     (if ''self'' \<in> fst ` set kwargs \<or> ''tool_name'' \<in> fst ` set kwargs then (Inl TypeError, c, w)
      else execute_tool fmt name kwargs c w)"

text \<open>The module-level \<^verbatim>\<open>load_trik_tools\<close> of trik\_client.py.\<close>

definition trik_client_load_trik_tools ::
  "((string \<times> field) list \<Rightarrow> error option) \<Rightarrow> string \<Rightarrow> (json \<Rightarrow> json \<Rightarrow> world \<Rightarrow> world) option \<Rightarrow> world
     \<Rightarrow> (error + tool list \<times> client) \<times> world" where
  "trik_client_load_trik_tools create_model server_url cb w =
     (let c = TrikClient server_url cb in
      case health c w of
        (Inl e, w1) \<Rightarrow> (Inl e, w1)
      | (Inr (JObj h), w1) \<Rightarrow>
          (let w2 = py_print (ConnectedTo (get_or h ''version'' (JStr ''unknown''))) w1 in
           case get_or h ''triks'' (JObj []) of
             JObj triks \<Rightarrow>
               (let w3 = py_print (LoadedTriksCount (get_or triks ''loaded'' (JInt 0))) w2 in
                case create_langchain_tools create_model c w3 of
                  (Inl e, w4) \<Rightarrow> (Inl e, w4)
                | (Inr tools, w4) \<Rightarrow> (Inr (tools, c), w4))
           | _ \<Rightarrow> (Inl AttributeError, w2))
      | (Inr _, w1) \<Rightarrow> (Inl AttributeError, w1))"


section \<open>Tool definitions and loading (tools.py)\<close>

text \<open>The three built-in tools. Their arguments arrive as \<^verbatim>\<open>str\<close>.\<close>

definition request_refund :: "string \<Rightarrow> string \<Rightarrow> world \<Rightarrow> string \<times> world" where
  "request_refund order_id reason w =
     (''Refund request submitted for order '' @ order_id
        @ ''. Our team will process this within 3-5 business days.'',
      py_print (RefundReason reason) (py_print (ProcessingRefund order_id) w))"

definition find_order :: "string \<Rightarrow> world \<Rightarrow> string \<times> world" where
  "find_order description w =
     (''Found order with description: '' @ description @ ''. Order ID is ORD123456.'',
      py_print (FindingOrder description) w)"

definition get_project_details :: "string \<Rightarrow> world \<Rightarrow> string \<times> world" where
  "get_project_details question w =
     (''Project: TrikHub Server Playground'' @ [CHR 0x0A]
        @ ''Tech Stack: Python, LangGraph, LangChain, OpenAI, trik-server'' @ [CHR 0x0A]
        @ ''Status: Active development'' @ [CHR 0x0A]
        @ ''Features: Tool calling via HTTP API, Type-directed privilege separation, Passthrough content delivery'',
      py_print (LookingUp question) w)"

text \<open>
  \<^verbatim>\<open>@tool\<close> names a tool after its function and derives the schema from the signature:
  every parameter of the built-ins is a required \<^verbatim>\<open>str\<close>.
\<close>

definition required_str :: field where
  "required_str = \<lparr>python_type = PyStr, default_none = False, field_description = JNull\<rparr>"

definition request_refund_tool :: tool where
  "request_refund_tool =
     \<lparr>tool_name = ''request_refund'',
      args_schema = Some [(''order_id'', required_str), (''reason'', required_str)],
      func = Builtin RequestRefund\<rparr>"

definition find_order_tool :: tool where
  "find_order_tool =
     \<lparr>tool_name = ''find_order'',
      args_schema = Some [(''description'', required_str)],
      func = Builtin FindOrder\<rparr>"

definition get_project_details_tool :: tool where
  "get_project_details_tool =
     \<lparr>tool_name = ''get_project_details'',
      args_schema = Some [(''question'', required_str)],
      func = Builtin GetProjectDetails\<rparr>"

definition BUILT_IN_TOOLS :: "tool list" where
  "BUILT_IN_TOOLS = [request_refund_tool, find_order_tool, get_project_details_tool]"

text \<open>
  Running the function behind a tool with keyword arguments that have passed the tool's
  schema. A parameter of a built-in that is missing or is not a \<^verbatim>\<open>str\<close> is
  pydantic's \<^verbatim>\<open>ValidationError\<close>.
\<close>

definition str_arg :: "(string \<times> json) list \<Rightarrow> string \<Rightarrow> error + string" where
  "str_arg kwargs k = (case map_of kwargs k of Some (JStr s) \<Rightarrow> Inr s | _ \<Rightarrow> Inl ValidationError)"

definition call_builtin :: "builtin \<Rightarrow> (string \<times> json) list \<Rightarrow> world \<Rightarrow> (error + json) \<times> world" where
  "call_builtin b kwargs w =
     (case b of
        RequestRefund \<Rightarrow>
          (case str_arg kwargs ''order_id'' of
             Inl e \<Rightarrow> (Inl e, w)
           | Inr order_id \<Rightarrow>
               (case str_arg kwargs ''reason'' of
                  Inl e \<Rightarrow> (Inl e, w)
                | Inr reason \<Rightarrow>
                    (case request_refund order_id reason w of (r, w') \<Rightarrow> (Inr (JStr r), w'))))
      | FindOrder \<Rightarrow>
          (case str_arg kwargs ''description'' of
             Inl e \<Rightarrow> (Inl e, w)
           | Inr description \<Rightarrow>
               (case find_order description w of (r, w') \<Rightarrow> (Inr (JStr r), w')))
      | GetProjectDetails \<Rightarrow>
          (case str_arg kwargs ''question'' of
             Inl e \<Rightarrow> (Inl e, w)
           | Inr question \<Rightarrow>
               (case get_project_details question w of (r, w') \<Rightarrow> (Inr (JStr r), w'))))"

definition call_func ::
  "(json \<Rightarrow> string) \<Rightarrow> handler \<Rightarrow> (string \<times> json) list \<Rightarrow> client \<Rightarrow> world
     \<Rightarrow> (error + json) \<times> client \<times> world" where
  "call_func fmt h kwargs c w =
     (case h of
        TrikFunc name \<Rightarrow> tool_func fmt name kwargs c w
      | Builtin b \<Rightarrow> (case call_builtin b kwargs w of (r, w') \<Rightarrow> (r, c, w')))"

text \<open>
  \<^verbatim>\<open>ToolNode(tools)\<close>, LangGraph's prebuilt node, looks a tool call up by name in a dict
  that it fills from the tool list in order, \<^verbatim>\<open>tools_by_name[tool.name] = tool\<close>: a later
  tool replaces an earlier one of the same name.
\<close>

fun fill_by_name :: "(string \<rightharpoonup> tool) \<Rightarrow> tool list \<Rightarrow> (string \<rightharpoonup> tool)" where
  "fill_by_name m [] = m"
| "fill_by_name m (t # ts) = fill_by_name (m(tool_name t \<mapsto> t)) ts"

definition tools_by_name :: "tool list \<Rightarrow> (string \<rightharpoonup> tool)" where
  "tools_by_name tools = fill_by_name Map.empty tools"

text \<open>\<^verbatim>\<open>ToolLoader\<close> and its fields.\<close>

record tool_loader =
  server_url :: string
  loader_on_passthrough :: "(json \<Rightarrow> json \<Rightarrow> world \<Rightarrow> world) option"
  trik_client :: "client option"
  trik_tools :: "tool list"
  loaded_triks :: "json list"

definition ToolLoader :: "string \<Rightarrow> (json \<Rightarrow> json \<Rightarrow> world \<Rightarrow> world) option \<Rightarrow> tool_loader" where
  "ToolLoader url cb =
     \<lparr>server_url = url, loader_on_passthrough = cb, trik_client = None, trik_tools = [], loaded_triks = []\<rparr>"

text \<open>\<^verbatim>\<open>[t["id"] for t in triks]\<close> and \<^verbatim>\<open>', '.join(...)\<close>, which takes strings only.\<close>

fun trik_ids :: "json list \<Rightarrow> error + json list" where
  "trik_ids [] = Inr []"
| "trik_ids (t # ts) =
     (case py_getitem t ''id'' of
        Inl e \<Rightarrow> Inl e
      | Inr i \<Rightarrow> (case trik_ids ts of Inl e \<Rightarrow> Inl e | Inr is \<Rightarrow> Inr (i # is)))"

fun join_names :: "json list \<Rightarrow> error + string list" where
  "join_names [] = Inr []"
| "join_names (JStr s # vs) = (case join_names vs of Inl e \<Rightarrow> Inl e | Inr ss \<Rightarrow> Inr (s # ss))"
| "join_names (_ # vs) = Inl TypeError"

text \<open>
  \<^verbatim>\<open>ToolLoader.load_trik_tools\<close>: first the body of the \<^verbatim>\<open>try\<close>, whose result is the
  exception it raised or the list it returned, then the method with its \<^verbatim>\<open>except Exception\<close>.
  The fields assigned before an exception keep their new value.
\<close>

definition load_trik_tools_try ::
  "((string \<times> field) list \<Rightarrow> error option) \<Rightarrow> tool_loader \<Rightarrow> world
     \<Rightarrow> (error + tool list) \<times> tool_loader \<times> world" where
  "load_trik_tools_try create_model l w =
     (case trik_client_load_trik_tools create_model (server_url l) (loader_on_passthrough l) w of
        (Inl e, w1) \<Rightarrow> (Inl e, l, w1)
      | (Inr (tools, c), w1) \<Rightarrow>
          (let l1 = l\<lparr>trik_client := Some c, trik_tools := tools\<rparr> in
           case get_tools c w1 of
             (Inl e, w2) \<Rightarrow> (Inl e, l1, w2)
           | (Inr (JObj tr), w2) \<Rightarrow>
               (case py_iter (get_or tr ''triks'' (JList [])) of
                  Inl e \<Rightarrow> (Inl e, l1, w2)
                | Inr triks \<Rightarrow>
                    (case trik_ids triks of
                       Inl e \<Rightarrow> (Inl e, l1, w2)
                     | Inr ids \<Rightarrow>
                         (let l2 = l1\<lparr>loaded_triks := ids\<rparr> in
                          if ids \<noteq> [] then
                            (case join_names ids of
                               Inl e \<Rightarrow> (Inl e, l2, w2)
                             | Inr names \<Rightarrow> (Inr tools, l2, py_print (TriksLoaded names) w2))
                          else (Inr tools, l2, py_print NoTriksConfigured w2))))
           | (Inr _, w2) \<Rightarrow> (Inl AttributeError, l1, w2)))"

definition load_trik_tools ::
  "((string \<times> field) list \<Rightarrow> error option) \<Rightarrow> tool_loader \<Rightarrow> world \<Rightarrow> tool list \<times> tool_loader \<times> world" where
  "load_trik_tools create_model l w =
     (case load_trik_tools_try create_model l w of
        (Inr tools, l', w') \<Rightarrow> (tools, l', w')
      | (Inl e, l', w') \<Rightarrow>
          ([], l', py_print (MakeSureServerRunning (server_url l)) (py_print (ErrorLoadingTriks e) w')))"

definition get_all_tools ::
  "((string \<times> field) list \<Rightarrow> error option) \<Rightarrow> tool_loader \<Rightarrow> world \<Rightarrow> tool list \<times> tool_loader \<times> world" where
  "get_all_tools create_model l w =
     (case load_trik_tools create_model l w of
        (trik_tools', l', w') \<Rightarrow> (BUILT_IN_TOOLS @ trik_tools', l', w'))"

definition load_all_tools ::
  "((string \<times> field) list \<Rightarrow> error option) \<Rightarrow> string \<Rightarrow> (json \<Rightarrow> json \<Rightarrow> world \<Rightarrow> world) option \<Rightarrow> world
     \<Rightarrow> tool list \<times> tool_loader \<times> world" where
  "load_all_tools create_model url cb w = get_all_tools create_model (ToolLoader url cb) w"


section \<open>The agent graph (agent.py)\<close>

text \<open>
  The conversation is LangGraph's \<^verbatim>\<open>MessagesState\<close>: a list of messages to which every
  node's update is appended. A tool call is the dict with \<^verbatim>\<open>name\<close>, \<^verbatim>\<open>args\<close> and
  \<^verbatim>\<open>id\<close> that an \<^verbatim>\<open>AIMessage\<close> carries; a \<^verbatim>\<open>ToolMessage\<close> has its content and the
  \<^verbatim>\<open>tool_call_id\<close> it answers.
\<close>

record tool_call =
  call_name :: string
  call_args :: "(string \<times> json) list"
  call_id :: string

datatype message =
    HumanMessage string
  | AIMessage string "tool_call list"
  | ToolMessage string string

record reason_validation =
  is_valid :: bool
  feedback :: string

text \<open>
  The two language models are collaborators outside the repository: \<open>model\<close> maps the
  conversation to the next message, \<open>validator\<close> maps the user prompt of the validation
  request (the system prompt is a constant) to a \<^verbatim>\<open>ReasonValidation\<close>. An exception of
  either service is not modelled.
\<close>

definition call_model :: "(message list \<Rightarrow> message) \<Rightarrow> message list \<Rightarrow> message list" where
  "call_model model msgs = [model msgs]"

definition is_refund :: "tool_call \<Rightarrow> bool" where
  "is_refund tc = (call_name tc = ''request_refund'')"

definition refund_prompt :: "(json \<Rightarrow> string) \<Rightarrow> tool_call \<Rightarrow> string" where
  "refund_prompt fmt refund_call =
     ''Evaluate this refund reason: '' @ [CHR 0x22]
       @ py_str fmt (get_or (call_args refund_call) ''reason'' (JStr [])) @ [CHR 0x22]"

definition validation_failed :: "string \<Rightarrow> string" where
  "validation_failed fb =
     ''VALIDATION FAILED: '' @ fb
       @ '' Please ask the customer for a more specific reason before trying again!''"

definition validate_refund ::
  "(json \<Rightarrow> string) \<Rightarrow> (string \<Rightarrow> reason_validation) \<Rightarrow> message list \<Rightarrow> world
     \<Rightarrow> (error + message list) \<times> world" where
  "validate_refund fmt validator msgs w =
     (if msgs = [] then (Inl IndexError, w)
      else case last msgs of
        AIMessage text tool_calls \<Rightarrow>
          (case find is_refund tool_calls of
             None \<Rightarrow> (Inr [], w)
           | Some refund_call \<Rightarrow>
               (let evaluation = validator (refund_prompt fmt refund_call);
                    w' = py_print (ReasonValidation (is_valid evaluation)) w
                in if \<not> is_valid evaluation
                   then (Inr [ToolMessage (validation_failed (feedback evaluation)) (call_id refund_call)], w')
                   else (Inr [], w')))
      | _ \<Rightarrow> (Inr [], w))"

datatype node = Agent | ValidateRefund | Tools | END

definition route_after_agent :: "message list \<Rightarrow> error + node" where
  "route_after_agent msgs =
     (if msgs = [] then Inl IndexError
      else case last msgs of
        AIMessage text tool_calls \<Rightarrow>
          if tool_calls = [] then Inr END
          else if list_ex is_refund tool_calls then Inr ValidateRefund
          else Inr Tools
      | _ \<Rightarrow> Inr END)"

definition route_after_validation :: "message list \<Rightarrow> error + node" where
  "route_after_validation msgs =
     (if msgs = [] then Inl IndexError
      else case last msgs of
        ToolMessage content tool_call_id \<Rightarrow> Inr Agent
      | _ \<Rightarrow> Inr Tools)"

text \<open>
  \<^verbatim>\<open>ToolNode(tools)\<close> is LangGraph's prebuilt node. Its contract: it runs every tool call
  of the last message, which has to be an \<^verbatim>\<open>AIMessage\<close>, and returns one
  \<^verbatim>\<open>ToolMessage\<close> for each call, in the order of the calls, with the call's id. How a
  call is looked up and run, errors folded into the content, is the parameter
  \<open>run_tool\<close>. The calls are run one after the other here.
\<close>

fun run_tool_calls ::
  "(tool_call \<Rightarrow> client \<Rightarrow> world \<Rightarrow> string \<times> client \<times> world) \<Rightarrow> tool_call list \<Rightarrow> client \<Rightarrow> world
     \<Rightarrow> message list \<times> client \<times> world" where
  "run_tool_calls run_tool [] c w = ([], c, w)"
| "run_tool_calls run_tool (tc # tcs) c w =
     (case run_tool tc c w of
        (content, c', w') \<Rightarrow>
          (case run_tool_calls run_tool tcs c' w' of
             (ms, c'', w'') \<Rightarrow> (ToolMessage content (call_id tc) # ms, c'', w'')))"

text \<open>
  The state of one run of the compiled graph: the messages, the client and the world the
  tools act on, and two records kept for the proofs: the tool calls that the tools node was
  given to run, and the ids of the calls that validation rejected.
\<close>

record run_state =
  messages :: "message list"
  the_client :: client
  the_world :: world
  dispatched :: "tool_call list"
  rejected :: "string list"

fun answered_id :: "message \<Rightarrow> string list" where
  "answered_id (ToolMessage content tool_call_id) = [tool_call_id]"
| "answered_id _ = []"

fun tool_calls :: "message \<Rightarrow> tool_call list" where
  "tool_calls (AIMessage text tcs) = tcs"
| "tool_calls _ = []"

text \<open>
  One node and the edge that leaves it, as \<^verbatim>\<open>create_agent_graph\<close> wires them:
  \<^verbatim>\<open>agent\<close> and \<^verbatim>\<open>validate_refund\<close> have conditional edges, \<^verbatim>\<open>tools\<close> goes back to
  \<^verbatim>\<open>agent\<close>.
\<close>

definition step ::
  "(json \<Rightarrow> string) \<Rightarrow> (message list \<Rightarrow> message) \<Rightarrow> (string \<Rightarrow> reason_validation)
     \<Rightarrow> (tool_call \<Rightarrow> client \<Rightarrow> world \<Rightarrow> string \<times> client \<times> world)
     \<Rightarrow> node \<Rightarrow> run_state \<Rightarrow> error + node \<times> run_state" where
  "step fmt model validator run_tool n st =
     (case n of
        Agent \<Rightarrow>
          (let st' = st\<lparr>messages := messages st @ call_model model (messages st)\<rparr> in
           case route_after_agent (messages st') of
             Inl e \<Rightarrow> Inl e
           | Inr n' \<Rightarrow> Inr (n', st'))
      | ValidateRefund \<Rightarrow>
          (case validate_refund fmt validator (messages st) (the_world st) of
             (Inl e, w') \<Rightarrow> Inl e
           | (Inr update, w') \<Rightarrow>
               (let st' = st\<lparr>messages := messages st @ update, the_world := w',
                              rejected := rejected st @ concat (map answered_id update)\<rparr> in
                case route_after_validation (messages st') of
                  Inl e \<Rightarrow> Inl e
                | Inr n' \<Rightarrow> Inr (n', st')))
      | Tools \<Rightarrow>
          (if messages st = [] then Inl ValueError
           else case last (messages st) of
             AIMessage text tcs \<Rightarrow>
               (case run_tool_calls run_tool tcs (the_client st) (the_world st) of
                  (update, c', w') \<Rightarrow>
                    Inr (Agent, st\<lparr>messages := messages st @ update, the_client := c',
                                     the_world := w', dispatched := dispatched st @ tcs\<rparr>))
           | _ \<Rightarrow> Inl ValueError)
      | END \<Rightarrow> Inr (END, st))"

text \<open>
  Running the graph from a node. LangGraph stops a run with \<^verbatim>\<open>GraphRecursionError\<close>
  unless its recursion limit (25 by default) exceeds the number of nodes the run takes to
  reach \<^verbatim>\<open>END\<close>: with \<open>k\<close> left, fewer than \<open>k\<close> nodes may still run.
\<close>

fun run_graph ::
  "(json \<Rightarrow> string) \<Rightarrow> (message list \<Rightarrow> message) \<Rightarrow> (string \<Rightarrow> reason_validation)
     \<Rightarrow> (tool_call \<Rightarrow> client \<Rightarrow> world \<Rightarrow> string \<times> client \<times> world)
     \<Rightarrow> nat \<Rightarrow> node \<Rightarrow> run_state \<Rightarrow> error + run_state" where
  "run_graph fmt model validator run_tool 0 n st = Inl GraphRecursionError"
| "run_graph fmt model validator run_tool (Suc k) n st =
     (if n = END then Inr st
      else case step fmt model validator run_tool n st of
        Inl e \<Rightarrow> Inl e
      | Inr (n', st') \<Rightarrow> run_graph fmt model validator run_tool k n' st')"

text \<open>\<^verbatim>\<open>graph.invoke\<close>: the edge from \<^verbatim>\<open>START\<close> leads to \<^verbatim>\<open>agent\<close>.\<close>

definition invoke ::
  "(json \<Rightarrow> string) \<Rightarrow> (message list \<Rightarrow> message) \<Rightarrow> (string \<Rightarrow> reason_validation)
     \<Rightarrow> (tool_call \<Rightarrow> client \<Rightarrow> world \<Rightarrow> string \<times> client \<times> world)
     \<Rightarrow> nat \<Rightarrow> run_state \<Rightarrow> error + run_state" where
  "invoke fmt model validator run_tool limit st = run_graph fmt model validator run_tool limit Agent st"

text \<open>
  The conversation invariant: every tool call carried by an \<^verbatim>\<open>AIMessage\<close> is answered by
  exactly one \<^verbatim>\<open>ToolMessage\<close> with its id.
\<close>

definition emitted_calls :: "message list \<Rightarrow> tool_call list" where
  "emitted_calls msgs = concat (map tool_calls msgs)"

definition answered_ids :: "message list \<Rightarrow> string list" where
  "answered_ids msgs = concat (map answered_id msgs)"

definition no_dangling_calls :: "message list \<Rightarrow> bool" where
  "no_dangling_calls msgs =
     list_all (\<lambda>tc. count_list (answered_ids msgs) (call_id tc) = 1) (emitted_calls msgs)"

text \<open>\<^verbatim>\<open>initialize_agent_with_triks\<close> hands \<^verbatim>\<open>handle_passthrough\<close> to the loader as the callback.\<close>

definition on_passthrough_agent :: "json \<Rightarrow> json \<Rightarrow> world \<Rightarrow> world" where
  "on_passthrough_agent content metadata w =
     w\<lparr>last_passthrough_content := handle_passthrough content metadata (last_passthrough_content w)\<rparr>"


section \<open>A stored session token is never a false value\<close>

text \<open>
  \<^verbatim>\<open>execute\<close> stores a session id only under \<^verbatim>\<open>if result.get("sessionId")\<close>, so the
  attribute is \<^verbatim>\<open>None\<close> or a true value. This is the invariant of the client.
\<close>

definition token_ok :: "client \<Rightarrow> bool" where
  "token_ok c = (case session_id c of None \<Rightarrow> True | Some v \<Rightarrow> truthy v)"

text \<open>The JSON payloads that were POSTed, in order.\<close>

fun posted_payload :: "request \<Rightarrow> json list" where
  "posted_payload (Post url payload) = [payload]"
| "posted_payload (Get url) = []"

definition posted :: "world \<Rightarrow> json list" where
  "posted w = concat (map posted_payload (sent w))"

section \<open>Concrete inputs\<close>

text \<open>Inputs on which the theorems below are run.\<close>

definition example_fmt :: "json \<Rightarrow> string" where
  "example_fmt v = ''<object>''"

definition example_world :: "(error + http_response) list \<Rightarrow> world" where
  "example_world answers =
     \<lparr>pending = answers, sent = [], last_passthrough_content = None, console = []\<rparr>"

definition example_client :: client where
  "example_client = TrikClient ''http://localhost:3002/'' (Some on_passthrough_agent)"

definition response_ok :: "json \<Rightarrow> error + http_response" where
  "response_ok j = Inr \<lparr>ok = True, body = Some j\<rparr>"

definition response_not_ok :: "json \<Rightarrow> error + http_response" where
  "response_not_ok j = Inr \<lparr>ok = False, body = Some j\<rparr>"

definition passthrough_envelope :: json where
  "passthrough_envelope =
     JObj [(''success'', JBool True), (''responseMode'', JStr ''passthrough''),
           (''userContentRef'', JStr ''ref-1''), (''contentType'', JStr ''article'')]"

definition content_envelope :: json where
  "content_envelope =
     JObj [(''success'', JBool True),
           (''content'', JObj [(''content'', JStr ''delivered''),
                               (''metadata'', JObj [(''contentType'', JStr ''article'')])])]"

definition failure_envelope :: json where
  "failure_envelope = JObj [(''success'', JBool False), (''error'', JStr ''Trik not found'')]"

definition session_envelope :: json where
  "session_envelope =
     JObj [(''success'', JBool True), (''sessionId'', JStr ''s-42''),
           (''responseMode'', JStr ''template''), (''response'', JStr ''done'')]"

definition search_schema :: json where
  "search_schema =
     JObj [(''type'', JStr ''object''),
           (''properties'', JObj [(''query'', JObj [(''type'', JStr ''string'')]),
                                  (''limit'', JObj [(''type'', JStr ''integer'')])]),
           (''required'', JList [JStr ''query''])]"

definition health_envelope :: json where
  "health_envelope = JObj [(''version'', JStr ''1.0''), (''triks'', JObj [(''loaded'', JInt 1)])]"

definition tools_envelope :: "string \<Rightarrow> json" where
  "tools_envelope name =
     JObj [(''tools'', JList [JObj [(''name'', JStr name), (''description'', JStr ''Search''),
                                    (''inputSchema'', search_schema)]]),
           (''triks'', JList [JObj [(''id'', JStr ''article-search'')]])]"


definition passthrough_world :: world where
  "passthrough_world = example_world [response_ok passthrough_envelope, response_ok content_envelope]"

text \<open>
  The world after the requests \<open>reqs\<close> were answered: the answers are used up, the requests
  are on record, and a POST that was not \<^verbatim>\<open>response.ok\<close> has left its debug line.
\<close>

definition after_exchange ::
  "bool \<Rightarrow> json \<Rightarrow> request list \<Rightarrow> (error + http_response) list \<Rightarrow> world \<Rightarrow> world" where
  "after_exchange is_ok inp reqs rest w =
     (let w' = w\<lparr>pending := rest, sent := sent w @ reqs\<rparr>
      in if is_ok then w' else py_print (DebugRequestFailed inp) w')"


text \<open>
  A gateway whose trik "request" has an action "refund", and a gateway that answers the
  health check and the first tool listing but not the second.
\<close>

definition collision_world :: world where
  "collision_world =
     example_world [response_ok health_envelope, response_ok (tools_envelope ''request:refund''),
                    response_ok (tools_envelope ''request:refund'')]"

definition listing_world :: world where
  "listing_world = example_world [response_ok (tools_envelope ''article-search:search'')]"

definition late_failure_world :: world where
  "late_failure_world =
     example_world [response_ok health_envelope, response_ok (tools_envelope ''article-search:search''),
                    Inl ConnectionError]"

definition search_fields :: "(string \<times> field) list" where
  "search_fields =
     [(''query'', \<lparr>python_type = PyStr, default_none = False, field_description = JStr []\<rparr>),
      (''limit'', \<lparr>python_type = PyInt, default_none = True, field_description = JStr []\<rparr>)]"


text \<open>The tools of a list that are exposed under a given name, in the order of the list.\<close>

definition tools_named :: "string \<Rightarrow> tool list \<Rightarrow> tool list" where
  "tools_named name tools = filter (\<lambda>t. tool_name t = name) tools"

text \<open>
  A pydantic that refuses a field name with a leading underscore and nothing else, and a
  gateway that lists a tool whose name is empty.
\<close>

definition example_create_model :: "(string \<times> field) list \<Rightarrow> error option" where
  "example_create_model flds =
     (if list_ex (\<lambda>(k, f). take 1 k = ''_'') flds then Some NameError else None)"

definition empty_name_world :: world where
  "empty_name_world = example_world [response_ok (tools_envelope [])]"

definition example_loader :: tool_loader where
  "example_loader = ToolLoader ''http://localhost:3002'' (Some on_passthrough_agent)"


text \<open>The ids of the tool calls that the conversation's \<^verbatim>\<open>AIMessage\<close>s carry.\<close>

definition call_ids :: "message list \<Rightarrow> string list" where
  "call_ids msgs = map call_id (emitted_calls msgs)"

text \<open>
  Two conversations. In the first the model asks for two tools at once, looking an order up
  and refunding it, and the validator finds the reason too vague; once it sees a tool
  result the model answers in plain text. In the second the model asks for the refund
  alone, is turned down, and asks again under a new id with a reason that passes.
\<close>

definition find_call :: tool_call where
  "find_call =
     \<lparr>call_name = ''find_order'', call_args = [(''description'', JStr ''laptop'')],
      call_id = ''call_a''\<rparr>"

definition vague_refund_call :: tool_call where
  "vague_refund_call =
     \<lparr>call_name = ''request_refund'',
      call_args = [(''order_id'', JStr ''ORD123456''), (''reason'', JStr ''I want a refund'')],
      call_id = ''call_b''\<rparr>"

definition specific_refund_call :: tool_call where
  "specific_refund_call =
     \<lparr>call_name = ''request_refund'',
      call_args = [(''order_id'', JStr ''ORD123456''), (''reason'', JStr ''item arrived damaged'')],
      call_id = ''call_c''\<rparr>"

definition two_calls_model :: "message list \<Rightarrow> message" where
  "two_calls_model msgs =
     (if answered_ids msgs = [] then AIMessage [] [find_call, vague_refund_call]
      else AIMessage ''Could you tell me why you want the refund?'' [])"

definition retry_model :: "message list \<Rightarrow> message" where
  "retry_model msgs =
     (if answered_ids msgs = [] then AIMessage [] [vague_refund_call]
      else if answered_ids msgs = [''call_b''] then AIMessage [] [specific_refund_call]
      else AIMessage ''Your refund is on its way.'' [])"

definition example_validator :: "string \<Rightarrow> reason_validation" where
  "example_validator prompt =
     (if prompt = ''Evaluate this refund reason: '' @ [CHR 0x22] @ ''item arrived damaged'' @ [CHR 0x22]
      then \<lparr>is_valid = True, feedback = []\<rparr>
      else \<lparr>is_valid = False, feedback = ''The reason does not say what is wrong.''\<rparr>)"

definition example_run_tool :: "tool_call \<Rightarrow> client \<Rightarrow> world \<Rightarrow> string \<times> client \<times> world" where
  "example_run_tool tc c w = (''done'', c, w)"

definition example_state :: run_state where
  "example_state =
     \<lparr>messages = [HumanMessage ''I want a refund for my laptop order''],
      the_client = example_client, the_world = example_world [],
      dispatched = [], rejected = []\<rparr>"

definition rejection_message :: message where
  "rejection_message =
     ToolMessage
       (''VALIDATION FAILED: The reason does not say what is wrong.''
          @ '' Please ask the customer for a more specific reason before trying again!'')
       ''call_b''"


text \<open>
  The invariant of a run, relative to the call ids \<open>known\<close> so far: the rejected ids and the
  ids of the dispatched calls are known and have nothing in common. At \<^verbatim>\<open>agent\<close> and at
  \<^verbatim>\<open>END\<close> the known ids are those of the whole conversation; at \<^verbatim>\<open>validate_refund\<close>
  and \<^verbatim>\<open>tools\<close> the last message is the \<^verbatim>\<open>AIMessage\<close> being handled, and the known
  ids are those before it.
\<close>

definition separated :: "run_state \<Rightarrow> string list \<Rightarrow> bool" where
  "separated st known =
     (set (rejected st) \<subseteq> set known \<and> call_id ` set (dispatched st) \<subseteq> set known
      \<and> set (rejected st) \<inter> call_id ` set (dispatched st) = {})"

definition graph_inv :: "node \<Rightarrow> run_state \<Rightarrow> bool" where
  "graph_inv n st =
     (if n = Agent \<or> n = END then separated st (call_ids (messages st))
      else \<exists>pre text tcs. messages st = pre @ [AIMessage text tcs] \<and> separated st (call_ids pre))"

section \<open>Properties of the passthrough slot\<close>

text \<open>
  Claim C9. The passthrough slot is overwrite-on-write and take-and-clear-on-read: after two
  consecutive writes with no read in between, a read returns only the second written
  (content, metadata) pair; and after any read, an immediately following read returns
  empty.
\<close>

theorem passthrough_slot_overwrite_and_clear:
  "fst (get_last_passthrough_content (handle_passthrough c2 m2 (handle_passthrough c1 m1 g)))
     = Some (c2, m2)
   \<and> fst (get_last_passthrough_content (snd (get_last_passthrough_content g))) = None"
  by (simp add: get_last_passthrough_content_def handle_passthrough_def)


section \<open>Properties of the gateway client\<close>

lemma example_client_simps:
  "base_url example_client = ''http://localhost:3002''"
  "session_id example_client = None"
  "on_passthrough example_client = Some on_passthrough_agent"
  by (simp_all add: example_client_def TrikClient_def rstrip_slash_def)

subsection \<open>The session token\<close>

lemma execute_sent:
  "sent (snd (snd (execute tool inp sid_arg c w)))
     = sent w @ [Post (base_url c @ ''/api/v1/execute'') (execute_payload tool inp sid_arg c)]"
  by (auto simp: execute_def http_def py_print_def
      split: list.splits sum.splits option.splits json.splits if_splits)

lemma execute_token_ok:
  "token_ok c \<Longrightarrow> token_ok (fst (snd (execute tool inp sid_arg c w)))"
  by (auto simp: execute_def http_def token_ok_def truthy_opt_def
      split: list.splits sum.splits option.splits json.splits if_splits)

lemma execute_token_change:
  assumes "session_id (fst (snd (execute tool inp sid_arg c w))) \<noteq> session_id c"
  shows "\<exists>resp rest kvs. pending w = Inr resp # rest \<and> ok resp \<and> body resp = Some (JObj kvs)
           \<and> truthy_opt (map_of kvs ''sessionId'')
           \<and> session_id (fst (snd (execute tool inp sid_arg c w))) = map_of kvs ''sessionId''"
  using assms
  by (auto simp: execute_def http_def
      split: list.splits sum.splits option.splits json.splits if_splits)

lemma execute_token_set:
  "pending w = Inr resp # rest \<Longrightarrow> ok resp \<Longrightarrow> body resp = Some (JObj kvs) \<Longrightarrow>
   truthy_opt (map_of kvs ''sessionId'') \<Longrightarrow>
   session_id (fst (snd (execute tool inp sid_arg c w))) = map_of kvs ''sessionId''"
  by (auto simp: execute_def http_def
      split: list.splits sum.splits option.splits json.splits if_splits)

lemma payload_stored:
  "token_ok c \<Longrightarrow> session_id c = Some tok \<Longrightarrow>
   execute_payload tool inp None c
     = JObj [(''tool'', JStr tool), (''input'', inp), (''sessionId'', tok)]"
  by (simp add: execute_payload_def token_ok_def truthy_opt_def)

lemma payload_explicit:
  "s \<noteq> [] \<Longrightarrow>
   execute_payload tool inp (Some s) c
     = JObj [(''tool'', JStr tool), (''input'', inp), (''sessionId'', JStr s)]"
  by (simp add: execute_payload_def token_ok_def truthy_opt_def)

lemma token_ok_TrikClient: "token_ok (TrikClient url cb)"
  by (simp add: token_ok_def TrikClient_def)

text \<open>
  Claim C5. The client's session token is set by the first response that supplies one, is
  included in the payload of every later call unless the caller supplies a different token
  for that call, and changes only after an HTTP-ok response that carries a session
  identifier; a response that is not ok leaves it unchanged.

  For one call of \<open>execute\<close> on a client that satisfies its invariant (a new client does,
  and the call keeps it): the request sent is the POST of \<open>execute_payload\<close>; that payload
  carries the stored token when the caller gives none, and the caller's token when one is
  given; an ok response with a true \<^verbatim>\<open>sessionId\<close> stores it; the stored token differs
  afterwards only if there was such a response; after a response that is not ok it is the same.
\<close>

theorem session_token_lifecycle:
  assumes "token_ok c"
  shows "token_ok (fst (snd (execute tool inp sid_arg c w)))
    \<and> sent (snd (snd (execute tool inp sid_arg c w)))
        = sent w @ [Post (base_url c @ ''/api/v1/execute'') (execute_payload tool inp sid_arg c)]
    \<and> (\<forall>tok. session_id c = Some tok \<longrightarrow>
          execute_payload tool inp None c
            = JObj [(''tool'', JStr tool), (''input'', inp), (''sessionId'', tok)])
    \<and> (\<forall>s. s \<noteq> [] \<longrightarrow>
          execute_payload tool inp (Some s) c
            = JObj [(''tool'', JStr tool), (''input'', inp), (''sessionId'', JStr s)])
    \<and> (\<forall>resp rest kvs. pending w = Inr resp # rest \<and> ok resp \<and> body resp = Some (JObj kvs)
            \<and> truthy_opt (map_of kvs ''sessionId'') \<longrightarrow>
          session_id (fst (snd (execute tool inp sid_arg c w))) = map_of kvs ''sessionId'')
    \<and> (session_id (fst (snd (execute tool inp sid_arg c w))) \<noteq> session_id c \<longrightarrow>
          (\<exists>resp rest kvs. pending w = Inr resp # rest \<and> ok resp \<and> body resp = Some (JObj kvs)
             \<and> truthy_opt (map_of kvs ''sessionId'')
             \<and> session_id (fst (snd (execute tool inp sid_arg c w))) = map_of kvs ''sessionId''))
    \<and> (\<forall>resp rest. pending w = Inr resp # rest \<and> \<not> ok resp \<longrightarrow>
          session_id (fst (snd (execute tool inp sid_arg c w))) = session_id c)"
proof -
  have not_ok: "session_id (fst (snd (execute tool inp sid_arg c w))) = session_id c"
    if "pending w = Inr resp # rest" "\<not> ok resp" for resp rest
    using execute_token_change[of tool inp sid_arg c w] that by auto
  show ?thesis
    using assms execute_sent[of tool inp sid_arg c w] execute_token_ok[of c tool inp sid_arg w]
      execute_token_change[of tool inp sid_arg c w] payload_stored[of c _ tool inp]
      payload_explicit[of _ tool inp c] not_ok
      execute_token_set[of w _ _ _ tool inp sid_arg c]
    by (intro conjI allI impI) (blast | simp)+
qed

text \<open>
  The theorem at two calls. A new client gets an ok answer with \<^verbatim>\<open>sessionId\<close> "s-42" and
  stores it. A client that holds "s-42" sends it, and keeps it when the answer is not ok
  although that answer names another session.
\<close>

theorem session_token_lifecycle_witness:
  "token_ok example_client
   \<and> session_id (fst (snd (execute ''t:a'' (JObj []) None example_client
        (example_world [response_ok session_envelope])))) = Some (JStr ''s-42'')
   \<and> token_ok (example_client\<lparr>session_id := Some (JStr ''s-42'')\<rparr>)
   \<and> sent (snd (snd (execute ''t:a'' (JObj []) None (example_client\<lparr>session_id := Some (JStr ''s-42'')\<rparr>)
        (example_world [response_not_ok (JObj [(''sessionId'', JStr ''other'')])]))))
       = [Post ''http://localhost:3002/api/v1/execute''
            (JObj [(''tool'', JStr ''t:a''), (''input'', JObj []), (''sessionId'', JStr ''s-42'')])]
   \<and> session_id (fst (snd (execute ''t:a'' (JObj []) None (example_client\<lparr>session_id := Some (JStr ''s-42'')\<rparr>)
        (example_world [response_not_ok (JObj [(''sessionId'', JStr ''other'')])])))) = Some (JStr ''s-42'')"
proof -
  let ?w1 = "example_world [response_ok session_envelope]"
  let ?c2 = "example_client\<lparr>session_id := Some (JStr ''s-42'')\<rparr>"
  let ?w2 = "example_world [response_not_ok (JObj [(''sessionId'', JStr ''other'')])]"
  have a: "token_ok example_client"
    by (simp add: token_ok_def example_client_simps)
  have b: "token_ok ?c2"
    by (simp add: token_ok_def)
  note t1 = session_token_lifecycle[OF a, of "''t:a''" "JObj []" None ?w1]
  note t2 = session_token_lifecycle[OF b, of "''t:a''" "JObj []" None ?w2]
  have p1: "pending ?w1 = Inr \<lparr>ok = True, body = Some session_envelope\<rparr> # []"
    by (simp add: example_world_def response_ok_def)
  have p2: "pending ?w2 = Inr \<lparr>ok = False, body = Some (JObj [(''sessionId'', JStr ''other'')])\<rparr> # []"
    by (simp add: example_world_def response_not_ok_def)
  from t1 have "\<forall>resp rest kvs. pending ?w1 = Inr resp # rest \<and> ok resp \<and> body resp = Some (JObj kvs)
            \<and> truthy_opt (map_of kvs ''sessionId'') \<longrightarrow>
          session_id (fst (snd (execute ''t:a'' (JObj []) None example_client ?w1))) = map_of kvs ''sessionId''"
    by (elim conjE)
  from this[rule_format, of "\<lparr>ok = True, body = Some session_envelope\<rparr>" "[]"
      "[(''success'', JBool True), (''sessionId'', JStr ''s-42''),
           (''responseMode'', JStr ''template''), (''response'', JStr ''done'')]"] p1
  have s1: "session_id (fst (snd (execute ''t:a'' (JObj []) None example_client ?w1))) = Some (JStr ''s-42'')"
    by (simp add: session_envelope_def truthy_opt_def)
  from t2 have "sent (snd (snd (execute ''t:a'' (JObj []) None ?c2 ?w2)))
        = sent ?w2 @ [Post (base_url ?c2 @ ''/api/v1/execute'') (execute_payload ''t:a'' (JObj []) None ?c2)]"
    by (elim conjE)
  then have s2: "sent (snd (snd (execute ''t:a'' (JObj []) None ?c2 ?w2)))
       = [Post ''http://localhost:3002/api/v1/execute''
            (JObj [(''tool'', JStr ''t:a''), (''input'', JObj []), (''sessionId'', JStr ''s-42'')])]"
    by (simp add: example_world_def example_client_simps execute_payload_def truthy_opt_def)
  from t2 have "\<forall>resp rest. pending ?w2 = Inr resp # rest \<and> \<not> ok resp \<longrightarrow>
          session_id (fst (snd (execute ''t:a'' (JObj []) None ?c2 ?w2))) = session_id ?c2"
    by (elim conjE)
  from this[rule_format, of "\<lparr>ok = False, body = Some (JObj [(''sessionId'', JStr ''other'')])\<rparr>" "[]"] p2
  have s3: "session_id (fst (snd (execute ''t:a'' (JObj []) None ?c2 ?w2))) = Some (JStr ''s-42'')"
    by simp
  show ?thesis
    using a b s1 s2 s3 by (intro conjI)
qed

subsection \<open>A failure reported by the gateway\<close>

text \<open>
  Claim C6. When the gateway reports failure (the decoded envelope has no true
  \<^verbatim>\<open>success\<close>, whatever the HTTP status), \<open>execute_tool\<close> raises nothing: it returns the
  text "Error: " followed by the envelope's \<^verbatim>\<open>error\<close> field ("Unknown error" when the
  field is missing).
\<close>

theorem execute_tool_remote_failure:
  assumes "pending w = Inr resp # rest"
    and "body resp = Some (JObj kvs)"
    and "\<not> truthy_opt (map_of kvs ''success'')"
  shows "fst (execute_tool fmt name kwargs c w)
          = Inr (JStr (''Error: '' @ py_str fmt (get_or kvs ''error'' (JStr ''Unknown error''))))"
  using assms
  by (auto simp: execute_tool_def execute_def http_def
      split: list.splits sum.splits option.splits json.splits if_splits)

theorem execute_tool_remote_failure_witness:
  "fst (execute_tool example_fmt ''t:a'' [] example_client
          (example_world [response_not_ok failure_envelope]))
     = Inr (JStr ''Error: Trik not found'')"
  using execute_tool_remote_failure[of "example_world [response_not_ok failure_envelope]"
      "\<lparr>ok = False, body = Some failure_envelope\<rparr>" "[]"
      "[(''success'', JBool False), (''error'', JStr ''Trik not found'')]"
      example_fmt "''t:a''" "[]" example_client]
  by (simp add: example_world_def response_not_ok_def failure_envelope_def truthy_opt_def
      get_or_def py_str_def)


subsection \<open>Passthrough delivery\<close>

lemma execute_result:
  assumes "pending w = Inr r1 # rest" "body r1 = Some (JObj kvs)"
  shows "fst (execute tool inp sid_arg c w) = Inr (JObj kvs)"
    and "base_url (fst (snd (execute tool inp sid_arg c w))) = base_url c"
    and "on_passthrough (fst (snd (execute tool inp sid_arg c w))) = on_passthrough c"
    and "snd (snd (execute tool inp sid_arg c w))
          = (if ok r1 then w\<lparr>pending := rest, sent := sent w @ [Post (base_url c @ ''/api/v1/execute'') (execute_payload tool inp sid_arg c)]\<rparr>
             else py_print (DebugRequestFailed inp) (w\<lparr>pending := rest, sent := sent w @ [Post (base_url c @ ''/api/v1/execute'') (execute_payload tool inp sid_arg c)]\<rparr>))"
  using assms by (auto simp: execute_def http_def)

lemma deliver_passthrough_ok:
  assumes "pending w = Inr r2 # rest"
    and "map_of kvs ''userContentRef'' = Some ref" "truthy ref"
    and "ok r2" "body r2 = Some (JObj cr)"
    and "truthy_opt (map_of cr ''success'')" "map_of cr ''content'' = Some (JObj cd)"
  shows "deliver_passthrough fmt kvs c w
     = (Inr (JStr (''['' @ py_str fmt (get_or kvs ''contentType'' (JStr ''content'')) @ '' delivered to user]'')),
        (case on_passthrough c of
           None \<Rightarrow> w\<lparr>pending := rest, sent := sent w @ [Get (base_url c @ ''/api/v1/content/'' @ py_str fmt ref)]\<rparr>
         | Some callback \<Rightarrow>
             callback (get_or cd ''content'' (JStr [])) (get_or cd ''metadata'' (JObj []))
               (w\<lparr>pending := rest, sent := sent w @ [Get (base_url c @ ''/api/v1/content/'' @ py_str fmt ref)]\<rparr>)))"
  using assms by (simp add: deliver_passthrough_def get_content_def http_def Let_def split: option.splits)

text \<open>
  Claim C3, as the code has it. When the decoded envelope has a true \<^verbatim>\<open>success\<close>,
  \<^verbatim>\<open>responseMode\<close> "passthrough" and a \<^verbatim>\<open>userContentRef\<close>, and the content fetch
  succeeds, \<open>execute_tool\<close> sends the POST and then the GET of the reference, hands the
  fetched content and metadata to the passthrough callback once if the client has one (the
  world is left as the exchange left it if it has none), and returns
  "[<contentType> delivered to user]", with "content" for a missing \<^verbatim>\<open>contentType\<close>. The
  returned text is built from the content type alone: the fetched content is not copied
  into it.
\<close>

theorem passthrough_delivery:
  assumes "pending w = Inr r1 # Inr r2 # rest"
    and "body r1 = Some (JObj kvs)"
    and "truthy_opt (map_of kvs ''success'')"
    and "map_of kvs ''responseMode'' = Some (JStr ''passthrough'')"
    and "map_of kvs ''userContentRef'' = Some ref" and "truthy ref"
    and "ok r2" and "body r2 = Some (JObj cr)"
    and "truthy_opt (map_of cr ''success'')" and "map_of cr ''content'' = Some (JObj cd)"
  shows "fst (execute_tool fmt name kwargs c w)
           = Inr (JStr (''['' @ py_str fmt (get_or kvs ''contentType'' (JStr ''content'')) @ '' delivered to user]''))
       \<and> snd (snd (execute_tool fmt name kwargs c w))
           = (let w2 = after_exchange (ok r1) (JObj (filtered_input kwargs))
                         [Post (base_url c @ ''/api/v1/execute'')
                            (execute_payload name (JObj (filtered_input kwargs)) None c),
                          Get (base_url c @ ''/api/v1/content/'' @ py_str fmt ref)] rest w
              in case on_passthrough c of
                   None \<Rightarrow> w2
                 | Some callback \<Rightarrow>
                     callback (get_or cd ''content'' (JStr [])) (get_or cd ''metadata'' (JObj [])) w2)"
proof -
  let ?inp = "JObj (filtered_input kwargs)"
  let ?e = "execute name ?inp None c w"
  obtain c1 w1 where e: "?e = (Inr (JObj kvs), c1, w1)"
    using execute_result(1)[OF assms(1,2), of name ?inp None c] by (cases ?e) auto
  have c1: "base_url c1 = base_url c" "on_passthrough c1 = on_passthrough c"
    using execute_result(2,3)[OF assms(1,2), of name ?inp None c] e by auto
  have w1: "w1 = (if ok r1 then w\<lparr>pending := Inr r2 # rest, sent := sent w @ [Post (base_url c @ ''/api/v1/execute'') (execute_payload name ?inp None c)]\<rparr>
             else py_print (DebugRequestFailed ?inp) (w\<lparr>pending := Inr r2 # rest, sent := sent w @ [Post (base_url c @ ''/api/v1/execute'') (execute_payload name ?inp None c)]\<rparr>))"
    using execute_result(4)[OF assms(1,2), of name ?inp None c] e by auto
  have p1: "pending w1 = Inr r2 # rest"
    by (simp add: w1 py_print_def)
  note d = deliver_passthrough_ok[OF p1 assms(5-10), of fmt c1]
  have mode: "map_of kvs ''responseMode'' \<noteq> Some (JStr ''template'')"
    using assms(4) by simp
  have "execute_tool fmt name kwargs c w
          = (case deliver_passthrough fmt kvs c1 w1 of (r, w'') \<Rightarrow> (r, c1, w''))"
    using e assms(3,4) mode by (simp add: execute_tool_def)
  then have res: "execute_tool fmt name kwargs c w
          = (Inr (JStr (''['' @ py_str fmt (get_or kvs ''contentType'' (JStr ''content'')) @ '' delivered to user]'')),
             c1,
             (case on_passthrough c of
                None \<Rightarrow> w1\<lparr>pending := rest, sent := sent w1 @ [Get (base_url c @ ''/api/v1/content/'' @ py_str fmt ref)]\<rparr>
              | Some callback \<Rightarrow>
                  callback (get_or cd ''content'' (JStr [])) (get_or cd ''metadata'' (JObj []))
                    (w1\<lparr>pending := rest, sent := sent w1 @ [Get (base_url c @ ''/api/v1/content/'' @ py_str fmt ref)]\<rparr>)))"
    by (simp only: d c1 prod.case)
  have eq: "w1\<lparr>pending := rest, sent := sent w1 @ [Get (base_url c @ ''/api/v1/content/'' @ py_str fmt ref)]\<rparr>
      = after_exchange (ok r1) ?inp
          [Post (base_url c @ ''/api/v1/execute'') (execute_payload name ?inp None c),
           Get (base_url c @ ''/api/v1/content/'' @ py_str fmt ref)] rest w"
    by (cases w; cases "ok r1"; simp add: w1 after_exchange_def py_print_def)
  show ?thesis
    unfolding res eq Let_def by simp
qed

text \<open>
  The claim as the specification words it fails on the search example: the acknowledgment
  is not "[article delivered]", and the fetched content, here the text "delivered", does
  occur in it.
\<close>

lemma passthrough_run:
  "execute_tool example_fmt ''article-search:search'' [(''query'', JStr ''ai''), (''limit'', JNull)]
     example_client passthrough_world
   = (Inr (JStr ''[article delivered to user]''), example_client,
      \<lparr>pending = [],
       sent = [Post ''http://localhost:3002/api/v1/execute''
                 (JObj [(''tool'', JStr ''article-search:search''), (''input'', JObj [(''query'', JStr ''ai'')])]),
               Get ''http://localhost:3002/api/v1/content/ref-1''],
       last_passthrough_content = Some (JStr ''delivered'', JObj [(''contentType'', JStr ''article'')]),
       console = []\<rparr>)"
  by (simp add: execute_tool_def execute_def execute_payload_def deliver_passthrough_def get_content_def
      http_def filtered_input_def passthrough_world_def example_world_def response_ok_def
      passthrough_envelope_def content_envelope_def example_client_simps truthy_opt_def get_or_def
      py_str_def on_passthrough_agent_def handle_passthrough_def)

theorem passthrough_ack_counterexample:
  "fst (execute_tool example_fmt ''article-search:search'' [(''query'', JStr ''ai''), (''limit'', JNull)]
          example_client passthrough_world) = Inr (JStr ''[article delivered to user]'')
   \<and> ''[article delivered to user]'' \<noteq> ''[article delivered]''
   \<and> sublist ''delivered'' ''[article delivered to user]''"
proof -
  have "''[article delivered to user]'' = ''[article '' @ ''delivered'' @ '' to user]''"
    by simp
  then have "sublist ''delivered'' ''[article delivered to user]''"
    unfolding sublist_def by blast
  then show ?thesis
    by (simp add: passthrough_run)
qed

theorem passthrough_delivery_witness:
  "fst (execute_tool example_fmt ''article-search:search'' [(''query'', JStr ''ai''), (''limit'', JNull)]
          example_client passthrough_world) = Inr (JStr ''[article delivered to user]'')
   \<and> last_passthrough_content
        (snd (snd (execute_tool example_fmt ''article-search:search'' [(''query'', JStr ''ai''), (''limit'', JNull)]
          example_client passthrough_world)))
       = Some (JStr ''delivered'', JObj [(''contentType'', JStr ''article'')])"
  using passthrough_delivery[of passthrough_world "\<lparr>ok = True, body = Some passthrough_envelope\<rparr>"
      "\<lparr>ok = True, body = Some content_envelope\<rparr>" "[]"
      "[(''success'', JBool True), (''responseMode'', JStr ''passthrough''),
           (''userContentRef'', JStr ''ref-1''), (''contentType'', JStr ''article'')]"
      "JStr ''ref-1''"
      "[(''success'', JBool True),
           (''content'', JObj [(''content'', JStr ''delivered''),
                               (''metadata'', JObj [(''contentType'', JStr ''article'')])])]"
      "[(''content'', JStr ''delivered''),
                               (''metadata'', JObj [(''contentType'', JStr ''article'')])]"
      example_fmt "''article-search:search''" "[(''query'', JStr ''ai''), (''limit'', JNull)]" example_client]
  by (simp add: passthrough_world_def example_world_def response_ok_def
      passthrough_envelope_def content_envelope_def example_client_simps truthy_opt_def get_or_def
      py_str_def on_passthrough_agent_def handle_passthrough_def after_exchange_def)




subsection \<open>What a tool call transmits\<close>

lemma get_content_sent:
  "sent (snd (get_content fmt ref c w)) = sent w @ [Get (base_url c @ ''/api/v1/content/'' @ py_str fmt ref)]"
  by (auto simp: get_content_def http_def split: list.splits sum.splits option.splits)

lemma get_content_posted: "posted (snd (get_content fmt ref c w)) = posted w"
  by (simp add: posted_def get_content_sent)

lemma deliver_passthrough_posted:
  assumes "\<forall>cb x m w'. on_passthrough c = Some cb \<longrightarrow> sent (cb x m w') = sent w'"
  shows "posted (snd (deliver_passthrough fmt kvs c w)) = posted w"
proof -
  have cb: "posted (case on_passthrough c of None \<Rightarrow> w' | Some callback \<Rightarrow> callback x m w') = posted w'"
    for x m w'
    using assms by (cases "on_passthrough c") (simp_all add: posted_def)
  show ?thesis
  proof (cases "map_of kvs ''userContentRef''")
    case None
    then show ?thesis by (simp add: deliver_passthrough_def)
  next
    case (Some ref)
    show ?thesis
    proof (cases "truthy ref")
      case False
      with Some show ?thesis by (simp add: deliver_passthrough_def)
    next
      case True
      obtain r w1 where g: "get_content fmt ref c w = (r, w1)"
        by (cases "get_content fmt ref c w")
      then have w1: "posted w1 = posted w"
        using get_content_posted[of fmt ref c w] by simp
      show ?thesis
        using Some True g w1 cb
        by (auto simp: deliver_passthrough_def Let_def
            split: sum.splits json.splits option.splits)
    qed
  qed
qed

lemma execute_posted:
  "posted (snd (snd (execute tool inp sid_arg c w))) = posted w @ [execute_payload tool inp sid_arg c]"
  by (simp add: posted_def execute_sent)

lemma execute_keeps_callback:
  "on_passthrough (fst (snd (execute tool inp sid_arg c w))) = on_passthrough c"
  by (auto simp: execute_def split: prod.splits sum.splits option.splits json.splits)

lemma execute_tool_posted:
  assumes "\<forall>cb x m w'. on_passthrough c = Some cb \<longrightarrow> sent (cb x m w') = sent w'"
  shows "posted (snd (snd (execute_tool fmt name kwargs c w)))
          = posted w @ [execute_payload name (JObj (filtered_input kwargs)) None c]"
proof -
  let ?inp = "JObj (filtered_input kwargs)"
  obtain r c1 w1 where e: "execute name ?inp None c w = (r, c1, w1)"
    by (cases "execute name ?inp None c w")
  have w1: "posted w1 = posted w @ [execute_payload name ?inp None c]"
    using execute_posted[of name ?inp None c w] e by simp
  have "on_passthrough c1 = on_passthrough c"
    using execute_keeps_callback[of name ?inp None c w] e by simp
  then have "posted (snd (deliver_passthrough fmt kvs c1 w1)) = posted w1" for kvs
    using deliver_passthrough_posted[of c1 fmt kvs w1] assms by simp
  then have d: "posted w' = posted w1" if "deliver_passthrough fmt kvs c1 w1 = (r', w')" for kvs r' w'
    using that by (metis snd_conv)
  have "posted (snd (snd (execute_tool fmt name kwargs c w))) = posted w1"
    using e d by (auto simp: execute_tool_def split: sum.splits json.splits prod.splits)
  with w1 show ?thesis by simp
qed

lemma execute_payload_shape:
  "\<exists>sess. execute_payload tool inp sid_arg c
            = JObj ([(''tool'', JStr tool), (''input'', inp)] @ sess)"
  by (simp add: execute_payload_def Let_def)

lemma filtered_input_absent:
  assumes "\<forall>v. (n, v) \<in> set kwargs \<longrightarrow> v = JNull"
  shows "map_of (filtered_input kwargs) n = None"
proof -
  have "n \<notin> fst ` set (filtered_input kwargs)"
    using assms by (auto simp: filtered_input_def)
  then show ?thesis by (simp add: map_of_eq_None_iff)
qed

lemma filtered_input_keeps:
  "(k, v) \<in> set kwargs \<Longrightarrow> v \<noteq> JNull \<Longrightarrow> (k, v) \<in> set (filtered_input kwargs)"
  by (simp add: filtered_input_def)

lemma filtered_input_no_null: "(k, JNull) \<notin> set (filtered_input kwargs)"
  by (simp add: filtered_input_def)

lemma tool_func_posted:
  assumes "\<forall>cb x m w'. on_passthrough c = Some cb \<longrightarrow> sent (cb x m w') = sent w'"
  shows "posted (snd (snd (tool_func fmt name kwargs c w)))
          = posted w @ (if ''self'' \<in> fst ` set kwargs \<or> ''tool_name'' \<in> fst ` set kwargs then []
                        else [execute_payload name (JObj (filtered_input kwargs)) None c])"
  using execute_tool_posted[OF assms, of fmt name kwargs w] by (simp add: tool_func_def)

lemma build_args_schema_two:
  assumes "s \<noteq> n"
  shows "build_args_schema create_model
           (JObj [(''type'', JStr ''object''),
                  (''properties'', JObj [(s, JObj [(''type'', JStr ''string'')]),
                                         (n, JObj [(''type'', JStr ''integer'')])]),
                  (''required'', JList [JStr s])])
         = (case create_model
                   [(s, \<lparr>python_type = PyStr, default_none = False, field_description = JStr []\<rparr>),
                    (n, \<lparr>python_type = PyInt, default_none = True, field_description = JStr []\<rparr>)] of
              Some e \<Rightarrow> Inl e
            | None \<Rightarrow>
                Inr (Some [(s, \<lparr>python_type = PyStr, default_none = False, field_description = JStr []\<rparr>),
                           (n, \<lparr>python_type = PyInt, default_none = True, field_description = JStr []\<rparr>)]))"
  using assms
  by (simp add: build_args_schema_def get_or_def py_iter_def hashable_def type_map_def Let_def)

text \<open>
  Claim C7. For a gateway tool whose input schema has a required string parameter \<open>s\<close>
  and an optional integer parameter \<open>n\<close>: unless pydantic refuses the field table, the
  schema gives \<open>n\<close> the default \<^verbatim>\<open>None\<close>; and when no value is supplied for \<open>n\<close> (the
  keyword arguments lack it or hold that default) a call of the tool POSTs nothing, if a
  keyword collides with a parameter of \<^verbatim>\<open>execute_tool\<close>, or one payload whose
  \<^verbatim>\<open>input\<close> object is without the key \<open>n\<close>. That object holds no \<^verbatim>\<open>None\<close> at all
  and keeps every other argument. The passthrough callback is taken not to send requests
  of its own.
\<close>

theorem optional_parameter_omitted:
  assumes "s \<noteq> n"
    and "\<forall>v. (n, v) \<in> set kwargs \<longrightarrow> v = JNull"
    and "\<forall>cb x m w'. on_passthrough c = Some cb \<longrightarrow> sent (cb x m w') = sent w'"
  shows "build_args_schema create_model
           (JObj [(''type'', JStr ''object''),
                  (''properties'', JObj [(s, JObj [(''type'', JStr ''string'')]),
                                         (n, JObj [(''type'', JStr ''integer'')])]),
                  (''required'', JList [JStr s])])
         = (case create_model
                   [(s, \<lparr>python_type = PyStr, default_none = False, field_description = JStr []\<rparr>),
                    (n, \<lparr>python_type = PyInt, default_none = True, field_description = JStr []\<rparr>)] of
              Some e \<Rightarrow> Inl e
            | None \<Rightarrow>
                Inr (Some [(s, \<lparr>python_type = PyStr, default_none = False, field_description = JStr []\<rparr>),
                           (n, \<lparr>python_type = PyInt, default_none = True, field_description = JStr []\<rparr>)]))
    \<and> (\<exists>sess. posted (snd (snd (tool_func fmt name kwargs c w)))
                 = posted w
                    @ (if ''self'' \<in> fst ` set kwargs \<or> ''tool_name'' \<in> fst ` set kwargs then []
                       else [JObj ([(''tool'', JStr name), (''input'', JObj (filtered_input kwargs))] @ sess)]))
    \<and> map_of (filtered_input kwargs) n = None
    \<and> (\<forall>k. (k, JNull) \<notin> set (filtered_input kwargs))
    \<and> (\<forall>k v. (k, v) \<in> set kwargs \<and> v \<noteq> JNull \<longrightarrow> (k, v) \<in> set (filtered_input kwargs))"
proof -
  obtain sess where "execute_payload name (JObj (filtered_input kwargs)) None c
            = JObj ([(''tool'', JStr name), (''input'', JObj (filtered_input kwargs))] @ sess)"
    using execute_payload_shape by blast
  then have "posted (snd (snd (tool_func fmt name kwargs c w)))
                 = posted w
                    @ (if ''self'' \<in> fst ` set kwargs \<or> ''tool_name'' \<in> fst ` set kwargs then []
                       else [JObj ([(''tool'', JStr name), (''input'', JObj (filtered_input kwargs))] @ sess)])"
    using tool_func_posted[OF assms(3), of fmt name kwargs w] by simp
  then show ?thesis
    using build_args_schema_two[OF assms(1), of create_model] filtered_input_absent[OF assms(2)]
      filtered_input_keeps[of _ _ kwargs] filtered_input_no_null[of _ kwargs]
    by blast
qed

text \<open>
  The theorem on the search tool, whose schema has the required string "query" and the
  optional integer "limit": the call with a query and no limit POSTs an input object that
  holds the query alone.
\<close>

theorem optional_parameter_omitted_witness:
  "''query'' \<noteq> ''limit''
   \<and> map_of [(''query'', JStr ''ai''), (''limit'', JNull)] ''limit'' = Some JNull
   \<and> build_args_schema example_create_model search_schema = Inr (Some search_fields)
   \<and> posted (snd (snd (tool_func example_fmt ''article-search:search''
         [(''query'', JStr ''ai''), (''limit'', JNull)] example_client passthrough_world)))
       = [JObj [(''tool'', JStr ''article-search:search''), (''input'', JObj [(''query'', JStr ''ai'')])]]"
proof -
  let ?kw = "[(''query'', JStr ''ai''), (''limit'', JNull)]"
  have a: "''query'' \<noteq> ''limit''" by simp
  have b: "\<forall>v. (''limit'', v) \<in> set ?kw \<longrightarrow> v = JNull" by simp
  have c: "\<forall>cb x m w'. on_passthrough example_client = Some cb \<longrightarrow> sent (cb x m w') = sent w'"
    by (simp add: example_client_simps on_passthrough_agent_def)
  note t = optional_parameter_omitted[OF a b c, of example_create_model example_fmt
      "''article-search:search''" passthrough_world]
  have "build_args_schema example_create_model search_schema
      = (case example_create_model search_fields of Some e \<Rightarrow> Inl e | None \<Rightarrow> Inr (Some search_fields))"
    unfolding search_schema_def search_fields_def using t by blast
  then have s: "build_args_schema example_create_model search_schema = Inr (Some search_fields)"
    by (simp add: example_create_model_def search_fields_def)
  from t obtain sess where
    p: "posted (snd (snd (tool_func example_fmt ''article-search:search'' ?kw example_client passthrough_world)))
         = posted passthrough_world
            @ (if ''self'' \<in> fst ` set ?kw \<or> ''tool_name'' \<in> fst ` set ?kw then []
               else [JObj ([(''tool'', JStr ''article-search:search''), (''input'', JObj (filtered_input ?kw))] @ sess)])"
    by blast
  have "posted (snd (snd (tool_func example_fmt ''article-search:search'' ?kw example_client passthrough_world)))
         = posted passthrough_world
            @ [execute_payload ''article-search:search'' (JObj (filtered_input ?kw)) None example_client]"
    using tool_func_posted[OF c, of example_fmt "''article-search:search''" ?kw passthrough_world] by simp
  then have "posted (snd (snd (tool_func example_fmt ''article-search:search'' ?kw example_client passthrough_world)))
       = [JObj [(''tool'', JStr ''article-search:search''), (''input'', JObj [(''query'', JStr ''ai'')])]]"
    by (simp add: posted_def passthrough_world_def example_world_def execute_payload_def
        example_client_simps truthy_opt_def filtered_input_def)
  with a s show ?thesis by simp
qed

subsection \<open>Names of gateway tools\<close>

lemma replace_colon_empty: "replace_colon n = [] \<longleftrightarrow> n = []"
  by (simp add: replace_colon_def)

lemma from_function_named:
  assumes "from_function f name description schema = Inr t"
  shows "tool_name t = (if name = [] then ''tool_func'' else name) \<and> func t = f"
  using assms by (cases description) (auto simp: from_function_def)

lemma make_tool_named:
  assumes "make_tool cm d = Inr t"
  shows "\<exists>n. py_getitem d ''name'' = Inr (JStr n)
           \<and> tool_name t = (if n = [] then ''tool_func'' else replace_colon n)
           \<and> func t = TrikFunc n"
proof (cases d)
  case (JObj kvs)
  show ?thesis
  proof (cases "map_of kvs ''name''")
    case None
    with JObj assms show ?thesis by (simp add: make_tool_def)
  next
    case (Some nm)
    let ?schema = "build_args_schema cm (get_or kvs ''inputSchema'' (JObj []))"
    from JObj Some assms obtain schema where s: "?schema = Inr schema"
      by (cases ?schema) (simp_all add: make_tool_def Let_def)
    from JObj Some assms s obtain n where n: "nm = JStr n"
      by (cases nm) (simp_all add: make_tool_def Let_def)
    from JObj Some assms s n
    have "from_function (TrikFunc n) (replace_colon n) (get_or kvs ''description'' (JStr [])) schema = Inr t"
      by (simp add: make_tool_def Let_def)
    from from_function_named[OF this]
    have "tool_name t = (if n = [] then ''tool_func'' else replace_colon n)" "func t = TrikFunc n"
      by (simp_all add: replace_colon_empty)
    moreover have "py_getitem d ''name'' = Inr (JStr n)"
      using JObj Some n by (simp add: py_getitem_def)
    ultimately show ?thesis by blast
  qed
qed (use assms in \<open>simp_all add: make_tool_def\<close>)

lemma make_tools_named:
  "make_tools cm defs = Inr ts \<Longrightarrow>
   list_all2 (\<lambda>d t. \<exists>n. py_getitem d ''name'' = Inr (JStr n)
                          \<and> tool_name t = (if n = [] then ''tool_func'' else replace_colon n)
                          \<and> func t = TrikFunc n) defs ts"
proof (induction defs arbitrary: ts)
  case Nil
  then show ?case by simp
next
  case (Cons d defs)
  then obtain t ts' where t: "make_tool cm d = Inr t" "make_tools cm defs = Inr ts'" "ts = t # ts'"
    by (auto split: sum.splits)
  with Cons.IH[of ts'] make_tool_named[of cm d t] show ?case by simp
qed

lemma replace_colon_nth:
  "i < length n \<Longrightarrow> replace_colon n ! i = (if n ! i = CHR '':'' then CHR ''_'' else n ! i)"
  by (simp add: replace_colon_def)

lemma replace_colon_length: "length (replace_colon n) = length n"
  by (simp add: replace_colon_def)

lemma create_langchain_tools_defs:
  assumes "create_langchain_tools cm c w = (Inr ts, w')"
  shows "\<exists>tr defs. fst (get_tools c w) = Inr (JObj tr)
           \<and> py_iter (get_or tr ''tools'' (JList [])) = Inr defs \<and> make_tools cm defs = Inr ts"
  using assms
  by (auto simp: create_langchain_tools_def split: prod.splits sum.splits json.splits)

lemma tool_func_posts_name:
  assumes "\<forall>cb x m w'. on_passthrough c = Some cb \<longrightarrow> sent (cb x m w') = sent w'"
  shows "\<exists>sess. posted (snd (snd (call_func fmt (TrikFunc n) kwargs c w)))
           = posted w
              @ (if ''self'' \<in> fst ` set kwargs \<or> ''tool_name'' \<in> fst ` set kwargs then []
                 else [JObj ([(''tool'', JStr n), (''input'', JObj (filtered_input kwargs))] @ sess)])"
proof -
  obtain sess where "execute_payload n (JObj (filtered_input kwargs)) None c
            = JObj ([(''tool'', JStr n), (''input'', JObj (filtered_input kwargs))] @ sess)"
    using execute_payload_shape by blast
  then have "posted (snd (snd (call_func fmt (TrikFunc n) kwargs c w)))
           = posted w
              @ (if ''self'' \<in> fst ` set kwargs \<or> ''tool_name'' \<in> fst ` set kwargs then []
                 else [JObj ([(''tool'', JStr n), (''input'', JObj (filtered_input kwargs))] @ sess)])"
    using tool_func_posted[OF assms, of fmt n kwargs w] by (simp add: call_func_def)
  then show ?thesis by blast
qed

text \<open>
  Claim C10, as the code has it. Every tool that \<open>create_langchain_tools\<close> builds from a
  descriptor of the gateway's listing with a name that is not empty is exposed under the
  descriptor's name with each ":" replaced by "_"; a descriptor with the empty name is
  exposed as "tool_func", the name of the closure. The function behind the tool POSTs the
  descriptor's own name, colons included, as \<^verbatim>\<open>tool\<close> in the one payload that a call
  sends (a call whose keywords collide with a parameter of \<^verbatim>\<open>execute_tool\<close> sends none).
\<close>

theorem exposed_name_replaces_colons:
  assumes "create_langchain_tools cm c w = (Inr ts, w')"
  shows "\<exists>tr defs. fst (get_tools c w) = Inr (JObj tr)
           \<and> py_iter (get_or tr ''tools'' (JList [])) = Inr defs
           \<and> list_all2
                (\<lambda>d t. \<exists>n. py_getitem d ''name'' = Inr (JStr n)
                   \<and> tool_name t = (if n = [] then ''tool_func'' else replace_colon n)
                   \<and> length (replace_colon n) = length n
                   \<and> (\<forall>i<length n. replace_colon n ! i = (if n ! i = CHR '':'' then CHR ''_'' else n ! i))
                   \<and> func t = TrikFunc n
                   \<and> (\<forall>fmt kwargs c1 w1.
                        (\<forall>cb x m w2. on_passthrough c1 = Some cb \<longrightarrow> sent (cb x m w2) = sent w2) \<longrightarrow>
                        (\<exists>sess. posted (snd (snd (call_func fmt (func t) kwargs c1 w1)))
                           = posted w1
                              @ (if ''self'' \<in> fst ` set kwargs \<or> ''tool_name'' \<in> fst ` set kwargs then []
                                 else [JObj ([(''tool'', JStr n), (''input'', JObj (filtered_input kwargs))] @ sess)]))))
                defs ts"
proof -
  obtain tr defs where d: "fst (get_tools c w) = Inr (JObj tr)"
      "py_iter (get_or tr ''tools'' (JList [])) = Inr defs" "make_tools cm defs = Inr ts"
    using create_langchain_tools_defs[OF assms] by blast
  have "list_all2
          (\<lambda>d t. \<exists>n. py_getitem d ''name'' = Inr (JStr n)
                        \<and> tool_name t = (if n = [] then ''tool_func'' else replace_colon n)
                        \<and> func t = TrikFunc n) defs ts"
    using make_tools_named[OF d(3)] .
  then have "list_all2
                (\<lambda>d t. \<exists>n. py_getitem d ''name'' = Inr (JStr n)
                   \<and> tool_name t = (if n = [] then ''tool_func'' else replace_colon n)
                   \<and> length (replace_colon n) = length n
                   \<and> (\<forall>i<length n. replace_colon n ! i = (if n ! i = CHR '':'' then CHR ''_'' else n ! i))
                   \<and> func t = TrikFunc n
                   \<and> (\<forall>fmt kwargs c1 w1.
                        (\<forall>cb x m w2. on_passthrough c1 = Some cb \<longrightarrow> sent (cb x m w2) = sent w2) \<longrightarrow>
                        (\<exists>sess. posted (snd (snd (call_func fmt (func t) kwargs c1 w1)))
                           = posted w1
                              @ (if ''self'' \<in> fst ` set kwargs \<or> ''tool_name'' \<in> fst ` set kwargs then []
                                 else [JObj ([(''tool'', JStr n), (''input'', JObj (filtered_input kwargs))] @ sess)]))))
                defs ts"
  proof (rule list_all2_mono)
    fix d t
    assume "\<exists>n. py_getitem d ''name'' = Inr (JStr n)
                 \<and> tool_name t = (if n = [] then ''tool_func'' else replace_colon n) \<and> func t = TrikFunc n"
    then obtain n where n: "py_getitem d ''name'' = Inr (JStr n)"
        "tool_name t = (if n = [] then ''tool_func'' else replace_colon n)" "func t = TrikFunc n"
      by blast
    have "\<forall>i<length n. replace_colon n ! i = (if n ! i = CHR '':'' then CHR ''_'' else n ! i)"
      using replace_colon_nth by simp
    moreover have "length (replace_colon n) = length n"
      using replace_colon_length by simp
    moreover have "\<forall>fmt kwargs c1 w1.
          (\<forall>cb x m w2. on_passthrough c1 = Some cb \<longrightarrow> sent (cb x m w2) = sent w2) \<longrightarrow>
          (\<exists>sess. posted (snd (snd (call_func fmt (func t) kwargs c1 w1)))
              = posted w1
                 @ (if ''self'' \<in> fst ` set kwargs \<or> ''tool_name'' \<in> fst ` set kwargs then []
                    else [JObj ([(''tool'', JStr n), (''input'', JObj (filtered_input kwargs))] @ sess)]))"
      using tool_func_posts_name n(3) by simp
    ultimately show "\<exists>n. py_getitem d ''name'' = Inr (JStr n)
                   \<and> tool_name t = (if n = [] then ''tool_func'' else replace_colon n)
                   \<and> length (replace_colon n) = length n
                   \<and> (\<forall>i<length n. replace_colon n ! i = (if n ! i = CHR '':'' then CHR ''_'' else n ! i))
                   \<and> func t = TrikFunc n
                   \<and> (\<forall>fmt kwargs c1 w1.
                        (\<forall>cb x m w2. on_passthrough c1 = Some cb \<longrightarrow> sent (cb x m w2) = sent w2) \<longrightarrow>
                        (\<exists>sess. posted (snd (snd (call_func fmt (func t) kwargs c1 w1)))
                           = posted w1
                              @ (if ''self'' \<in> fst ` set kwargs \<or> ''tool_name'' \<in> fst ` set kwargs then []
                                 else [JObj ([(''tool'', JStr n), (''input'', JObj (filtered_input kwargs))] @ sess)])))"
      using n by blast
  qed
  with d(1,2) show ?thesis by blast
qed

lemma list_all2_singleton: "list_all2 P xs [y] \<Longrightarrow> \<exists>x. P x y"
  by (auto simp: list_all2_Cons2)

lemma listing_run:
  "create_langchain_tools example_create_model example_client listing_world
    = (Inr [\<lparr>tool_name = ''article-search_search'', args_schema = Some search_fields,
             func = TrikFunc ''article-search:search''\<rparr>],
       \<lparr>pending = [], sent = [Get ''http://localhost:3002/api/v1/tools''],
        last_passthrough_content = None, console = []\<rparr>)"
  by (simp add: create_langchain_tools_def get_tools_def http_def listing_world_def example_world_def
      response_ok_def tools_envelope_def example_client_simps get_or_def py_iter_def make_tool_def
      from_function_def example_create_model_def
      search_schema_def search_fields_def build_args_schema_def hashable_def
      type_map_def replace_colon_def)

text \<open>
  The theorem on the listing of the search tool: "article-search:search" is exposed as
  "article-search_search", and a call of the tool POSTs "article-search:search".
\<close>

theorem exposed_name_replaces_colons_witness:
  "fst (create_langchain_tools example_create_model example_client listing_world)
     = Inr [\<lparr>tool_name = ''article-search_search'', args_schema = Some search_fields,
             func = TrikFunc ''article-search:search''\<rparr>]
   \<and> replace_colon ''article-search:search'' = ''article-search_search''
   \<and> posted (snd (snd (call_func example_fmt (TrikFunc ''article-search:search'')
         [(''query'', JStr ''ai'')] example_client (example_world []))))
       = [JObj [(''tool'', JStr ''article-search:search''), (''input'', JObj [(''query'', JStr ''ai'')])]]"
proof -
  let ?t = "\<lparr>tool_name = ''article-search_search'', args_schema = Some search_fields,
             func = TrikFunc ''article-search:search''\<rparr>"
  let ?kw = "[(''query'', JStr ''ai'')]"
  have c: "\<forall>cb x m w'. on_passthrough example_client = Some cb \<longrightarrow> sent (cb x m w') = sent w'"
    by (simp add: example_client_simps on_passthrough_agent_def)
  from exposed_name_replaces_colons[OF listing_run]
  obtain defs where "list_all2 (\<lambda>d t. \<exists>n. py_getitem d ''name'' = Inr (JStr n)
                   \<and> tool_name t = (if n = [] then ''tool_func'' else replace_colon n)
                   \<and> length (replace_colon n) = length n
                   \<and> (\<forall>i<length n. replace_colon n ! i = (if n ! i = CHR '':'' then CHR ''_'' else n ! i))
                   \<and> func t = TrikFunc n
                   \<and> (\<forall>fmt kwargs c1 w1.
                        (\<forall>cb x m w2. on_passthrough c1 = Some cb \<longrightarrow> sent (cb x m w2) = sent w2) \<longrightarrow>
                        (\<exists>sess. posted (snd (snd (call_func fmt (func t) kwargs c1 w1)))
                           = posted w1
                              @ (if ''self'' \<in> fst ` set kwargs \<or> ''tool_name'' \<in> fst ` set kwargs then []
                                 else [JObj ([(''tool'', JStr n), (''input'', JObj (filtered_input kwargs))] @ sess)]))))
                defs [?t]"
    by blast
  from list_all2_singleton[OF this]
  obtain n where n: "tool_name ?t = (if n = [] then ''tool_func'' else replace_colon n)"
      "func ?t = TrikFunc n"
    by blast
  from n(2) have "n = ''article-search:search''"
    by simp
  with n(1) have r: "replace_colon ''article-search:search'' = ''article-search_search''"
    by simp
  have "posted (snd (snd (call_func example_fmt (TrikFunc ''article-search:search'') ?kw
            example_client (example_world []))))
         = posted (example_world [])
            @ [execute_payload ''article-search:search'' (JObj (filtered_input ?kw)) None example_client]"
    using tool_func_posted[OF c, of example_fmt "''article-search:search''" ?kw "example_world []"]
    by (simp add: call_func_def)
  then have p: "posted (snd (snd (call_func example_fmt (TrikFunc ''article-search:search'') ?kw
            example_client (example_world []))))
       = [JObj [(''tool'', JStr ''article-search:search''), (''input'', JObj [(''query'', JStr ''ai'')])]]"
    by (simp add: posted_def example_world_def execute_payload_def example_client_simps
        truthy_opt_def filtered_input_def)
  from r p show ?thesis
    by (simp add: listing_run)
qed

lemma empty_name_run:
  "fst (create_langchain_tools example_create_model example_client empty_name_world)
    = Inr [\<lparr>tool_name = ''tool_func'', args_schema = Some search_fields, func = TrikFunc []\<rparr>]"
  by (simp add: create_langchain_tools_def get_tools_def http_def empty_name_world_def example_world_def
      response_ok_def tools_envelope_def example_client_simps get_or_def py_iter_def make_tool_def
      from_function_def example_create_model_def
      search_schema_def search_fields_def build_args_schema_def hashable_def
      type_map_def replace_colon_def)

text \<open>
  The claim as the specification words it fails for a descriptor whose name is empty: the
  name with its colons replaced is empty too, and the tool is exposed as "tool_func".
\<close>

theorem empty_name_counterexample:
  "map_sum id (map tool_name)
      (fst (create_langchain_tools example_create_model example_client empty_name_world))
     = Inr [''tool_func'']
   \<and> replace_colon [] \<noteq> ''tool_func''"
  by (simp add: empty_name_run replace_colon_def)

section \<open>Properties of registry load\<close>

lemma health_unreachable:
  "pending w = [] \<Longrightarrow> fst (health c w) = Inl ConnectionError"
  "pending w = Inl e # rest \<Longrightarrow> fst (health c w) = Inl e"
  "pending w = Inr r # rest \<Longrightarrow> \<not> ok r \<Longrightarrow> fst (health c w) = Inl HTTPError"
  by (simp_all add: health_def http_def)

lemma trik_client_load_health:
  "fst (health (TrikClient url cb) w) = Inl e \<Longrightarrow> fst (trik_client_load_trik_tools cm url cb w) = Inl e"
  by (auto simp: trik_client_load_trik_tools_def Let_def split: prod.splits sum.splits json.splits)

lemma load_try_health:
  "fst (health (TrikClient (server_url l) (loader_on_passthrough l)) w) = Inl e \<Longrightarrow>
   fst (load_trik_tools_try cm l w) = Inl e"
  using trik_client_load_health[of "server_url l" "loader_on_passthrough l" w e cm]
  by (auto simp: load_trik_tools_try_def split: prod.splits sum.splits)

lemma get_all_tools_failed:
  assumes "fst (load_trik_tools_try cm l w) = Inl e"
  shows "get_all_tools cm l w
          = (BUILT_IN_TOOLS, fst (snd (load_trik_tools_try cm l w)),
             py_print (MakeSureServerRunning (server_url l))
               (py_print (ErrorLoadingTriks e) (snd (snd (load_trik_tools_try cm l w)))))"
  using assms by (cases "load_trik_tools_try cm l w") (auto simp: get_all_tools_def load_trik_tools_def)

text \<open>
  Claim C8. Registry load never raises: \<open>get_all_tools\<close> always returns a list. When
  anything inside the \<^verbatim>\<open>try\<close> of \<open>load_trik_tools\<close> raises, the list is exactly
  \<open>BUILT_IN_TOOLS\<close> and the two warning lines are printed; an unreachable gateway (no
  answer, a transport exception, or a health check that is not ok) is such a case.
\<close>

theorem registry_load_degrades_to_builtins:
  "(\<forall>e. fst (load_trik_tools_try cm l w) = Inl e \<longrightarrow>
        fst (get_all_tools cm l w) = BUILT_IN_TOOLS
      \<and> console (snd (snd (get_all_tools cm l w)))
          = console (snd (snd (load_trik_tools_try cm l w)))
              @ [ErrorLoadingTriks e, MakeSureServerRunning (server_url l)])
   \<and> (pending w = [] \<longrightarrow> fst (load_trik_tools_try cm l w) = Inl ConnectionError)
   \<and> (\<forall>e rest. pending w = Inl e # rest \<longrightarrow> fst (load_trik_tools_try cm l w) = Inl e)
   \<and> (\<forall>r rest. pending w = Inr r # rest \<and> \<not> ok r \<longrightarrow> fst (load_trik_tools_try cm l w) = Inl HTTPError)"
proof (intro conjI allI impI)
  fix e assume e: "fst (load_trik_tools_try cm l w) = Inl e"
  show "fst (get_all_tools cm l w) = BUILT_IN_TOOLS"
    by (simp add: get_all_tools_failed[OF e])
  show "console (snd (snd (get_all_tools cm l w)))
          = console (snd (snd (load_trik_tools_try cm l w)))
              @ [ErrorLoadingTriks e, MakeSureServerRunning (server_url l)]"
    by (simp add: get_all_tools_failed[OF e] py_print_def)
next
  assume "pending w = []"
  then show "fst (load_trik_tools_try cm l w) = Inl ConnectionError"
    by (intro load_try_health health_unreachable(1))
next
  fix e rest assume "pending w = Inl e # rest"
  then show "fst (load_trik_tools_try cm l w) = Inl e"
    by (intro load_try_health health_unreachable(2))
next
  fix r rest assume "pending w = Inr r # rest \<and> \<not> ok r"
  then show "fst (load_trik_tools_try cm l w) = Inl HTTPError"
    by (intro load_try_health health_unreachable(3)[of w r rest]) simp_all
qed

lemma late_failure_try:
  "fst (load_trik_tools_try example_create_model example_loader late_failure_world) = Inl ConnectionError"
  by (simp add: load_trik_tools_try_def example_loader_def
      trik_client_load_trik_tools_def ToolLoader_def TrikClient_def rstrip_slash_def health_def
      create_langchain_tools_def get_tools_def http_def late_failure_world_def example_world_def
      response_ok_def tools_envelope_def health_envelope_def get_or_def py_iter_def make_tool_def
      from_function_def example_create_model_def
      py_getitem_def search_schema_def search_fields_def build_args_schema_def hashable_def
      type_map_def replace_colon_def py_print_def Let_def)

theorem registry_load_degrades_to_builtins_witness:
  "pending (example_world []) = []
   \<and> fst (get_all_tools example_create_model example_loader (example_world [])) = BUILT_IN_TOOLS
   \<and> fst (load_trik_tools_try example_create_model example_loader late_failure_world) = Inl ConnectionError
   \<and> fst (get_all_tools example_create_model example_loader late_failure_world) = BUILT_IN_TOOLS"
proof -
  have p: "pending (example_world []) = []"
    by (simp add: example_world_def)
  note t1 = registry_load_degrades_to_builtins[of example_create_model example_loader "example_world []"]
  note t2 = registry_load_degrades_to_builtins[of example_create_model example_loader late_failure_world]
  from t1 p have "fst (load_trik_tools_try example_create_model example_loader (example_world [])) = Inl ConnectionError"
    by blast
  with t1 have a: "fst (get_all_tools example_create_model example_loader (example_world [])) = BUILT_IN_TOOLS"
    by blast
  from t2 late_failure_try have b: "fst (get_all_tools example_create_model example_loader late_failure_world) = BUILT_IN_TOOLS"
    by blast
  from p a b late_failure_try show ?thesis by blast
qed

subsection \<open>Name collisions\<close>

lemma tools_named_BUILT_IN:
  assumes "t \<in> set BUILT_IN_TOOLS"
  shows "tools_named (tool_name t) BUILT_IN_TOOLS = [t]"
  using assms
  by (auto simp: tools_named_def BUILT_IN_TOOLS_def request_refund_tool_def find_order_tool_def
      get_project_details_tool_def)

lemma fill_by_name_lookup:
  "fill_by_name m ts n = (case fill_by_name Map.empty ts n of Some t \<Rightarrow> Some t | None \<Rightarrow> m n)"
proof (induction ts arbitrary: m)
  case Nil
  then show ?case by simp
next
  case (Cons t ts)
  have "fill_by_name (m(tool_name t \<mapsto> t)) ts n
      = (case fill_by_name Map.empty ts n of Some u \<Rightarrow> Some u | None \<Rightarrow> (m(tool_name t \<mapsto> t)) n)"
    using Cons.IH[of "m(tool_name t \<mapsto> t)"] .
  moreover have "fill_by_name (Map.empty(tool_name t \<mapsto> t)) ts n
      = (case fill_by_name Map.empty ts n of Some u \<Rightarrow> Some u | None \<Rightarrow> (Map.empty(tool_name t \<mapsto> t)) n)"
    using Cons.IH[of "Map.empty(tool_name t \<mapsto> t)"] .
  ultimately show ?case
    by (simp split: option.splits)
qed

lemma fill_by_name_append: "fill_by_name m (xs @ ys) = fill_by_name (fill_by_name m xs) ys"
  by (induction xs arbitrary: m) simp_all

lemma tools_by_name_append:
  "tools_by_name (xs @ ys) n
     = (case tools_by_name ys n of Some t \<Rightarrow> Some t | None \<Rightarrow> tools_by_name xs n)"
  unfolding tools_by_name_def fill_by_name_append
  using fill_by_name_lookup[of "fill_by_name Map.empty xs" ys n] .

lemma tools_by_name_BUILT_IN:
  assumes "t \<in> set BUILT_IN_TOOLS"
  shows "tools_by_name BUILT_IN_TOOLS (tool_name t) = Some t"
  using assms
  by (auto simp: tools_by_name_def BUILT_IN_TOOLS_def request_refund_tool_def find_order_tool_def
      get_project_details_tool_def)

lemma make_tools_trik:
  assumes "make_tools cm defs = Inr ts" "r \<in> set ts"
  shows "\<exists>n. func r = TrikFunc n"
proof -
  from make_tools_named[OF assms(1)] assms(2)
  obtain d where "\<exists>n. py_getitem d ''name'' = Inr (JStr n)
                    \<and> tool_name r = (if n = [] then ''tool_func'' else replace_colon n)
                    \<and> func r = TrikFunc n"
    by (auto simp: list_all2_conv_all_nth in_set_conv_nth)
  then show ?thesis by blast
qed

lemma create_langchain_tools_trik:
  assumes "create_langchain_tools cm c w = (Inr ts, w')" "r \<in> set ts"
  shows "\<exists>n. func r = TrikFunc n"
  using create_langchain_tools_defs[OF assms(1)] make_tools_trik[OF _ assms(2)] by blast

lemma trik_client_load_trik:
  assumes "trik_client_load_trik_tools cm url cb w = (Inr (ts, c), w')" "r \<in> set ts"
  shows "\<exists>n. func r = TrikFunc n"
proof -
  from assms(1) obtain c0 w0 w1 where "create_langchain_tools cm c0 w0 = (Inr ts, w1)"
    by (auto simp: trik_client_load_trik_tools_def Let_def
        split: prod.splits sum.splits json.splits)
  from create_langchain_tools_trik[OF this assms(2)] show ?thesis .
qed

lemma load_try_trik:
  assumes "load_trik_tools_try cm l w = (Inr ts, l', w')" "r \<in> set ts"
  shows "\<exists>n. func r = TrikFunc n"
proof -
  from assms(1) obtain c w1 where "trik_client_load_trik_tools cm (server_url l) (loader_on_passthrough l) w = (Inr (ts, c), w1)"
    by (auto simp: load_trik_tools_try_def Let_def
        split: prod.splits sum.splits json.splits if_splits)
  from trik_client_load_trik[OF this assms(2)] show ?thesis .
qed

lemma load_trik_tools_trik:
  assumes "r \<in> set (fst (load_trik_tools cm l w))"
  shows "\<exists>n. func r = TrikFunc n"
proof (cases "load_trik_tools_try cm l w")
  case (fields res l' w')
  show ?thesis
  proof (cases res)
    case (Inl e)
    with fields assms show ?thesis by (simp add: load_trik_tools_def)
  next
    case (Inr ts)
    with fields assms have "r \<in> set ts" by (simp add: load_trik_tools_def)
    with load_try_trik[of cm l w ts l' w' r] fields Inr show ?thesis by simp
  qed
qed

text \<open>
  Claim C4, as the code has it. \<open>get_all_tools\<close> returns the built-in tools followed by
  the gateway tools and drops nothing, so a built-in tool stays first under its name. The
  name is bound to the built-in tool only as long as no gateway tool is exposed under it:
  on a collision both tools stay in the list, and the name table that the tools node fills
  from the list binds the name to the gateway tool.
\<close>

theorem local_name_bound_unless_gateway_collides:
  "fst (get_all_tools cm l w) = BUILT_IN_TOOLS @ fst (load_trik_tools cm l w)
   \<and> (\<forall>t \<in> set BUILT_IN_TOOLS.
         tools_named (tool_name t) (fst (get_all_tools cm l w))
           = t # tools_named (tool_name t) (fst (load_trik_tools cm l w))
       \<and> tools_by_name (fst (get_all_tools cm l w)) (tool_name t)
           = (case tools_by_name (fst (load_trik_tools cm l w)) (tool_name t) of
                None \<Rightarrow> Some t
              | Some r \<Rightarrow> Some r))
   \<and> (\<forall>r \<in> set (fst (load_trik_tools cm l w)). \<exists>n. func r = TrikFunc n)"
proof -
  have m: "fst (get_all_tools cm l w) = BUILT_IN_TOOLS @ fst (load_trik_tools cm l w)"
    by (cases "load_trik_tools cm l w") (simp add: get_all_tools_def)
  have a: "tools_named n (xs @ ys) = tools_named n xs @ tools_named n ys" for n xs ys
    by (simp add: tools_named_def)
  have b: "tools_by_name (BUILT_IN_TOOLS @ ys) (tool_name t)
      = (case tools_by_name ys (tool_name t) of None \<Rightarrow> Some t | Some r \<Rightarrow> Some r)"
    if "t \<in> set BUILT_IN_TOOLS" for t ys
    using tools_by_name_append[of BUILT_IN_TOOLS ys "tool_name t"] tools_by_name_BUILT_IN[OF that]
    by (simp split: option.splits)
  show ?thesis
    unfolding m using a b tools_named_BUILT_IN load_trik_tools_trik by simp
qed

lemma collision_run:
  "fst (get_all_tools example_create_model example_loader collision_world)
     = BUILT_IN_TOOLS @ [\<lparr>tool_name = ''request_refund'', args_schema = Some search_fields,
                           func = TrikFunc ''request:refund''\<rparr>]"
  by (simp add: example_loader_def get_all_tools_def load_trik_tools_def load_trik_tools_try_def
      trik_client_load_trik_tools_def ToolLoader_def TrikClient_def rstrip_slash_def health_def
      create_langchain_tools_def get_tools_def http_def collision_world_def example_world_def
      response_ok_def tools_envelope_def health_envelope_def get_or_def py_iter_def make_tool_def
      from_function_def example_create_model_def
      py_getitem_def search_schema_def search_fields_def build_args_schema_def hashable_def
      type_map_def replace_colon_def py_print_def Let_def)


lemma no_gateway_run:
  "fst (get_all_tools example_create_model example_loader (example_world [])) = BUILT_IN_TOOLS"
  by (simp add: example_loader_def get_all_tools_def load_trik_tools_def load_trik_tools_try_def
      trik_client_load_trik_tools_def ToolLoader_def TrikClient_def health_def http_def
      example_world_def Let_def)

text \<open>
  A gateway trik "request" with an action "refund" is exposed as "request_refund", the name
  of a built-in tool. In the merged list that name is bound to the gateway tool: the tools
  node would send a \<^verbatim>\<open>request_refund\<close> call to the gateway.
\<close>

theorem local_name_collision_counterexample:
  "map_option func
     (tools_by_name (fst (get_all_tools example_create_model example_loader collision_world))
        ''request_refund'')
     = Some (TrikFunc ''request:refund'')
   \<and> tool_name request_refund_tool = ''request_refund''
   \<and> func request_refund_tool = Builtin RequestRefund"
  by (simp add: collision_run tools_by_name_def BUILT_IN_TOOLS_def request_refund_tool_def
      find_order_tool_def get_project_details_tool_def)

text \<open>
  The theorem with and without a collision: at the colliding gateway the name
  "request_refund" goes to the gateway tool, and with no gateway it goes to the built-in.
\<close>

theorem local_name_bound_unless_gateway_collides_witness:
  "request_refund_tool \<in> set BUILT_IN_TOOLS
   \<and> tools_by_name (fst (get_all_tools example_create_model example_loader collision_world))
        ''request_refund''
       = Some \<lparr>tool_name = ''request_refund'', args_schema = Some search_fields,
                func = TrikFunc ''request:refund''\<rparr>
   \<and> tools_by_name (fst (get_all_tools example_create_model example_loader (example_world [])))
        ''request_refund''
       = Some request_refund_tool"
proof -
  let ?r = "\<lparr>tool_name = ''request_refund'', args_schema = Some search_fields,
                func = TrikFunc ''request:refund''\<rparr>"
  have a: "request_refund_tool \<in> set BUILT_IN_TOOLS"
    by (simp add: BUILT_IN_TOOLS_def)
  have n: "tool_name request_refund_tool = ''request_refund''"
    by (simp add: request_refund_tool_def)
  note t1 = local_name_bound_unless_gateway_collides[of example_create_model example_loader collision_world]
  note t2 = local_name_bound_unless_gateway_collides[of example_create_model example_loader "example_world []"]
  from t1 collision_run have l1: "fst (load_trik_tools example_create_model example_loader collision_world) = [?r]"
    by simp
  from t2 no_gateway_run have l2: "fst (load_trik_tools example_create_model example_loader (example_world [])) = []"
    by simp
  from t1 a have "tools_by_name (fst (get_all_tools example_create_model example_loader collision_world))
        (tool_name request_refund_tool)
      = (case tools_by_name (fst (load_trik_tools example_create_model example_loader collision_world))
                (tool_name request_refund_tool) of
           None \<Rightarrow> Some request_refund_tool | Some r \<Rightarrow> Some r)"
    by blast
  then have b: "tools_by_name (fst (get_all_tools example_create_model example_loader collision_world))
        ''request_refund'' = Some ?r"
    by (simp add: l1 n tools_by_name_def)
  from t2 a have "tools_by_name (fst (get_all_tools example_create_model example_loader (example_world [])))
        (tool_name request_refund_tool)
      = (case tools_by_name (fst (load_trik_tools example_create_model example_loader (example_world [])))
                (tool_name request_refund_tool) of
           None \<Rightarrow> Some request_refund_tool | Some r \<Rightarrow> Some r)"
    by blast
  then have c: "tools_by_name (fst (get_all_tools example_create_model example_loader (example_world [])))
        ''request_refund'' = Some request_refund_tool"
    by (simp add: l2 n tools_by_name_def)
  from a b c show ?thesis by blast
qed

section \<open>Properties of the agent graph\<close>

lemma run_graph_END [simp]: "run_graph fmt model validator run_tool (Suc k) END st = Inr st"
  by simp

lemma run_graph_step:
  "n \<noteq> END \<Longrightarrow> step fmt model validator run_tool n st = Inr (n', st') \<Longrightarrow>
   run_graph fmt model validator run_tool (Suc k) n st = run_graph fmt model validator run_tool k n' st'"
  by simp

subsection \<open>Two tool calls, one of them a rejected refund\<close>

lemma two_calls_step1:
  "step example_fmt two_calls_model example_validator example_run_tool Agent example_state
    = Inr (ValidateRefund,
           example_state\<lparr>messages := [HumanMessage ''I want a refund for my laptop order'',
                                       AIMessage [] [find_call, vague_refund_call]]\<rparr>)"
  by (simp add: step_def call_model_def two_calls_model_def example_state_def answered_ids_def
      route_after_agent_def is_refund_def find_call_def vague_refund_call_def)

lemma two_calls_step2:
  "step example_fmt two_calls_model example_validator example_run_tool ValidateRefund
     (example_state\<lparr>messages := [HumanMessage ''I want a refund for my laptop order'',
                                       AIMessage [] [find_call, vague_refund_call]]\<rparr>)
    = Inr (Agent,
           example_state\<lparr>messages := [HumanMessage ''I want a refund for my laptop order'',
                                       AIMessage [] [find_call, vague_refund_call],
                                       rejection_message],
                          the_world := py_print (ReasonValidation False) (example_world []),
                          rejected := [''call_b'']\<rparr>)"
  by (simp add: step_def validate_refund_def example_state_def is_refund_def find_call_def
      vague_refund_call_def refund_prompt_def get_or_def py_str_def example_validator_def
      route_after_validation_def rejection_message_def validation_failed_def Let_def)

lemma two_calls_step3:
  "step example_fmt two_calls_model example_validator example_run_tool Agent
     (example_state\<lparr>messages := [HumanMessage ''I want a refund for my laptop order'',
                                       AIMessage [] [find_call, vague_refund_call],
                                       rejection_message],
                          the_world := py_print (ReasonValidation False) (example_world []),
                          rejected := [''call_b'']\<rparr>)
    = Inr (END,
           example_state\<lparr>messages := [HumanMessage ''I want a refund for my laptop order'',
                                       AIMessage [] [find_call, vague_refund_call],
                                       rejection_message,
                                       AIMessage ''Could you tell me why you want the refund?'' []],
                          the_world := py_print (ReasonValidation False) (example_world []),
                          rejected := [''call_b'']\<rparr>)"
  by (simp add: step_def call_model_def two_calls_model_def example_state_def answered_ids_def
      route_after_agent_def rejection_message_def)

lemma two_calls_run:
  "invoke example_fmt two_calls_model example_validator example_run_tool 25 example_state
    = Inr (example_state\<lparr>messages := [HumanMessage ''I want a refund for my laptop order'',
                                       AIMessage [] [find_call, vague_refund_call],
                                       rejection_message,
                                       AIMessage ''Could you tell me why you want the refund?'' []],
                          the_world := py_print (ReasonValidation False) (example_world []),
                          rejected := [''call_b'']\<rparr>)"
proof -
  have "(25::nat) = Suc (Suc (Suc (Suc 21)))" by simp
  then show ?thesis
    unfolding invoke_def
    by (simp only: run_graph_step[OF _ two_calls_step1] run_graph_step[OF _ two_calls_step2]
        run_graph_step[OF _ two_calls_step3] run_graph_END node.distinct not_False_eq_True)
qed

text \<open>
  The run takes three nodes: a recursion limit of three stops it, a limit of four lets it
  through.
\<close>

lemma two_calls_run_limit:
  "invoke example_fmt two_calls_model example_validator example_run_tool 3 example_state
     = Inl GraphRecursionError
   \<and> invoke example_fmt two_calls_model example_validator example_run_tool 4 example_state
     = invoke example_fmt two_calls_model example_validator example_run_tool 25 example_state"
proof -
  let ?run = "run_graph example_fmt two_calls_model example_validator example_run_tool"
  have r3: "?run (Suc (Suc (Suc 0))) Agent example_state = Inl GraphRecursionError"
    by (simp only: run_graph_step[OF _ two_calls_step1] run_graph_step[OF _ two_calls_step2]
        run_graph_step[OF _ two_calls_step3] run_graph.simps(1) node.distinct not_False_eq_True)
  have r4: "?run (Suc (Suc (Suc (Suc 0)))) Agent example_state = ?run 25 Agent example_state"
    unfolding two_calls_run[unfolded invoke_def]
    by (simp only: run_graph_step[OF _ two_calls_step1] run_graph_step[OF _ two_calls_step2]
        run_graph_step[OF _ two_calls_step3] run_graph_END node.distinct not_False_eq_True)
  have n: "(3::nat) = Suc (Suc (Suc 0))" "(4::nat) = Suc (Suc (Suc (Suc 0)))" by simp_all
  show ?thesis
    unfolding invoke_def n using r3 r4 by (rule conjI)
qed

text \<open>
  Claim C1. Every tool call id carried by an \<^verbatim>\<open>AIMessage\<close> has exactly one
  \<^verbatim>\<open>ToolMessage\<close> with that id when the run reaches \<^verbatim>\<open>END\<close>, also when one decision
  step emits several tool calls of which one is a rejected \<^verbatim>\<open>request_refund\<close>.

  The graph does not keep this. \<open>validate_refund\<close> answers the rejected refund call only,
  and \<open>route_after_validation\<close> then goes back to \<^verbatim>\<open>agent\<close> past the tools node. On the
  run below the model asks for \<^verbatim>\<open>find_order\<close> (id "call_a") and \<^verbatim>\<open>request_refund\<close>
  (id "call_b") in one message; the run ends after four messages, and "call_a" has no
  \<^verbatim>\<open>ToolMessage\<close>.
\<close>

theorem dangling_call_after_rejected_refund:
  "(case invoke example_fmt two_calls_model example_validator example_run_tool 25 example_state of
      Inl e \<Rightarrow> False
    | Inr st \<Rightarrow>
        messages st = [HumanMessage ''I want a refund for my laptop order'',
                       AIMessage [] [find_call, vague_refund_call],
                       rejection_message,
                       AIMessage ''Could you tell me why you want the refund?'' []]
        \<and> count_list (answered_ids (messages st)) (call_id find_call) = 0
        \<and> \<not> no_dangling_calls (messages st))"
  by (simp add: two_calls_run no_dangling_calls_def answered_ids_def emitted_calls_def
      rejection_message_def find_call_def vague_refund_call_def)

subsection \<open>A rejected refund is not executed\<close>

lemma call_ids_append [simp]: "call_ids (xs @ ys) = call_ids xs @ call_ids ys"
  by (simp add: call_ids_def emitted_calls_def)

lemma call_ids_Nil [simp]: "call_ids [] = []"
  by (simp add: call_ids_def emitted_calls_def)

lemma call_ids_Cons [simp]: "call_ids (m # ms) = map call_id (tool_calls m) @ call_ids ms"
  by (simp add: call_ids_def emitted_calls_def)

lemma run_tool_calls_no_calls:
  "run_tool_calls run_tool tcs c w = (ms, c', w') \<Longrightarrow> call_ids ms = []"
proof (induction tcs arbitrary: c w ms c' w')
  case Nil
  then show ?case by auto
next
  case (Cons tc tcs)
  obtain content c1 w1 where r: "run_tool tc c w = (content, c1, w1)"
    by (cases "run_tool tc c w")
  obtain ms1 c2 w2 where rs: "run_tool_calls run_tool tcs c1 w1 = (ms1, c2, w2)"
    by (cases "run_tool_calls run_tool tcs c1 w1")
  from Cons.prems r rs have "ms = ToolMessage content (call_id tc) # ms1"
    by simp
  moreover have "call_ids ms1 = []"
    using Cons.IH[OF rs] .
  ultimately show ?case
    by simp
qed

lemma validate_refund_cases:
  assumes "validate_refund fmt validator (pre @ [AIMessage text tcs]) w = (r, w')"
  shows "r = Inr [] \<or>
         (\<exists>rc. find is_refund tcs = Some rc \<and> \<not> is_valid (validator (refund_prompt fmt rc))
            \<and> r = Inr [ToolMessage (validation_failed (feedback (validator (refund_prompt fmt rc)))) (call_id rc)])"
  using assms by (auto simp: validate_refund_def Let_def split: option.splits if_splits)

lemma step_prefix:
  assumes "step fmt model validator run_tool n st = Inr (n', st')"
  shows "prefix (messages st) (messages st')"
proof (cases n)
  case Agent
  with assms show ?thesis by (auto simp: step_def Let_def split: sum.splits)
next
  case ValidateRefund
  with assms show ?thesis by (auto simp: step_def Let_def split: sum.splits prod.splits)
next
  case Tools
  with assms show ?thesis
    by (auto simp: step_def Let_def split: sum.splits prod.splits if_splits message.splits)
next
  case END
  with assms show ?thesis by (simp add: step_def)
qed

lemma run_graph_prefix:
  "run_graph fmt model validator run_tool k n st = Inr st' \<Longrightarrow> prefix (messages st) (messages st')"
proof (induction k arbitrary: n st)
  case 0
  then show ?case by simp
next
  case (Suc k)
  show ?case
  proof (cases "n = END")
    case True
    with Suc.prems show ?thesis by simp
  next
    case False
    with Suc.prems obtain n1 st1 where s: "step fmt model validator run_tool n st = Inr (n1, st1)"
      and r: "run_graph fmt model validator run_tool k n1 st1 = Inr st'"
      by (auto split: sum.splits)
    from step_prefix[OF s] Suc.IH[OF r] show ?thesis by (rule prefix_order.trans)
  qed
qed

lemma prefix_distinct_call_ids:
  assumes "prefix xs ys" "distinct (call_ids ys)"
  shows "distinct (call_ids xs)"
proof -
  from assms(1) obtain zs where "ys = xs @ zs" by (auto simp: prefix_def)
  with assms(2) show ?thesis by simp
qed

lemma route_after_agent_mid:
  assumes "route_after_agent (msgs @ [m]) = Inr n" "n \<noteq> END"
  shows "\<exists>text tcs. m = AIMessage text tcs \<and> (n = ValidateRefund \<or> n = Tools)"
  using assms by (auto simp: route_after_agent_def split: message.splits if_splits)

lemma step_inv:
  assumes s: "step fmt model validator run_tool n st = Inr (n', st')"
    and i: "graph_inv n st"
    and d: "distinct (call_ids (messages st'))"
  shows "graph_inv n' st'"
proof (cases n)
  case END
  with s i show ?thesis by (simp add: step_def)
next
  case Agent
  from s Agent obtain m where st': "st' = st\<lparr>messages := messages st @ [m]\<rparr>"
    and r: "route_after_agent (messages st @ [m]) = Inr n'"
    by (auto simp: step_def call_model_def Let_def split: sum.splits)
  from i Agent have sep: "separated st (call_ids (messages st))"
    by (simp add: graph_inv_def)
  show ?thesis
  proof (cases "n' = END")
    case True
    have "separated st' (call_ids (messages st'))"
      using sep by (auto simp: separated_def st')
    with True show ?thesis by (simp add: graph_inv_def)
  next
    case False
    from route_after_agent_mid[OF r False] obtain txt0 tcs where
      m: "m = AIMessage txt0 tcs" and n': "n' = ValidateRefund \<or> n' = Tools"
      by blast
    have "separated st' (call_ids (messages st))"
      using sep by (simp add: separated_def st')
    with m n' show ?thesis
      by (auto simp: graph_inv_def st')
  qed
next
  case ValidateRefund
  with i obtain pre txt0 tcs where msgs: "messages st = pre @ [AIMessage txt0 tcs]"
    and sep: "separated st (call_ids pre)"
    by (auto simp: graph_inv_def)
  obtain r w' where v: "validate_refund fmt validator (messages st) (the_world st) = (r, w')"
    by (cases "validate_refund fmt validator (messages st) (the_world st)")
  from validate_refund_cases[OF v[unfolded msgs]]
  show ?thesis
  proof
    assume "r = Inr []"
    with s ValidateRefund v msgs have "n' = Tools" "st' = st\<lparr>the_world := w'\<rparr>"
      by (auto simp: step_def route_after_validation_def Let_def)
    with msgs sep show ?thesis
      by (auto simp: graph_inv_def separated_def)
  next
    assume "\<exists>rc. find is_refund tcs = Some rc \<and> \<not> is_valid (validator (refund_prompt fmt rc))
            \<and> r = Inr [ToolMessage (validation_failed (feedback (validator (refund_prompt fmt rc)))) (call_id rc)]"
    then obtain rc where rc: "find is_refund tcs = Some rc"
      and r: "r = Inr [ToolMessage (validation_failed (feedback (validator (refund_prompt fmt rc)))) (call_id rc)]"
      by blast
    from rc have mem: "rc \<in> set tcs"
      by (auto simp: find_Some_iff)
    from s ValidateRefund v r msgs have n': "n' = Agent"
      and st': "st' = st\<lparr>messages := messages st @ [ToolMessage (validation_failed (feedback (validator (refund_prompt fmt rc)))) (call_id rc)],
                         the_world := w', rejected := rejected st @ [call_id rc]\<rparr>"
      by (auto simp: step_def route_after_validation_def Let_def)
    from d have "distinct (call_ids pre @ map call_id tcs)"
      by (simp add: st' msgs)
    with mem have fresh: "call_id rc \<notin> set (call_ids pre)"
      by auto
    have "separated st' (call_ids (messages st'))"
      using sep fresh mem by (auto simp: separated_def st' msgs)
    with n' show ?thesis by (simp add: graph_inv_def)
  qed
next
  case Tools
  with i obtain pre txt0 tcs where msgs: "messages st = pre @ [AIMessage txt0 tcs]"
    and sep: "separated st (call_ids pre)"
    by (auto simp: graph_inv_def)
  obtain upd c' w' where t: "run_tool_calls run_tool tcs (the_client st) (the_world st) = (upd, c', w')"
    by (cases "run_tool_calls run_tool tcs (the_client st) (the_world st)")
  from s Tools msgs t have n': "n' = Agent"
    and st': "st' = st\<lparr>messages := messages st @ upd, the_client := c', the_world := w',
                       dispatched := dispatched st @ tcs\<rparr>"
    by (auto simp: step_def)
  have upd: "call_ids upd = []"
    using run_tool_calls_no_calls[OF t] .
  from d have "distinct (call_ids pre @ map call_id tcs)"
    by (simp add: st' msgs upd)
  then have fresh: "set (call_ids pre) \<inter> call_id ` set tcs = {}"
    by auto
  have "separated st' (call_ids (messages st'))"
    using sep fresh by (auto simp: separated_def st' msgs upd)
  with n' show ?thesis by (simp add: graph_inv_def)
qed

lemma run_graph_inv:
  "run_graph fmt model validator run_tool k n st = Inr st' \<Longrightarrow> graph_inv n st \<Longrightarrow>
   distinct (call_ids (messages st')) \<Longrightarrow>
   set (rejected st') \<inter> call_id ` set (dispatched st') = {}"
proof (induction k arbitrary: n st)
  case 0
  then show ?case by simp
next
  case (Suc k)
  show ?case
  proof (cases "n = END")
    case True
    with Suc.prems show ?thesis by (simp add: graph_inv_def separated_def)
  next
    case False
    with Suc.prems(1) obtain n1 st1 where s: "step fmt model validator run_tool n st = Inr (n1, st1)"
      and r: "run_graph fmt model validator run_tool k n1 st1 = Inr st'"
      by (auto split: sum.splits)
    have "distinct (call_ids (messages st1))"
      using prefix_distinct_call_ids[OF run_graph_prefix[OF r] Suc.prems(3)] .
    from step_inv[OF s Suc.prems(2) this] have "graph_inv n1 st1" .
    from Suc.IH[OF r this Suc.prems(3)] show ?thesis .
  qed
qed

lemma validate_refund_rejects:
  assumes "messages st = pre @ [AIMessage text tcs]"
    and "find is_refund tcs = Some rc"
    and "\<not> is_valid (validator (refund_prompt fmt rc))"
  shows "step fmt model validator run_tool ValidateRefund st
        = Inr (Agent,
               st\<lparr>messages := messages st
                     @ [ToolMessage
                          (''VALIDATION FAILED: '' @ feedback (validator (refund_prompt fmt rc))
                             @ '' Please ask the customer for a more specific reason before trying again!'')
                          (call_id rc)],
                  the_world := py_print (ReasonValidation False) (the_world st),
                  rejected := rejected st @ [call_id rc]\<rparr>)"
  using assms
  by (simp add: step_def validate_refund_def validation_failed_def route_after_validation_def Let_def)

text \<open>
  Claim C2. When validation judges a \<^verbatim>\<open>request_refund\<close> call invalid, the tool is not
  executed for that call id: a \<^verbatim>\<open>ToolMessage\<close> that carries the feedback and the id of the
  call is appended, and the graph goes back to \<^verbatim>\<open>agent\<close>.

  First conjunct: the validator is asked about the reason of the call. Second conjunct:
  the step of \<^verbatim>\<open>validate_refund\<close> on a conversation that ends with an \<^verbatim>\<open>AIMessage\<close>
  whose first refund call is judged invalid appends exactly one message, whose content is
  "VALIDATION FAILED: ", the validator's feedback and the request to ask the customer, and
  whose \<^verbatim>\<open>tool_call_id\<close> is the id of the call; it records the rejection, leaves the
  dispatched calls as they were and continues at \<^verbatim>\<open>agent\<close>. Third conjunct: in a run of
  the whole graph that ends with a conversation in which the call ids are unique, no
  rejected id is the id of a call that the tools node was given to run.
\<close>

theorem rejected_refund_is_not_executed:
  "refund_prompt fmt rc
     = ''Evaluate this refund reason: '' @ [CHR 0x22]
         @ py_str fmt (get_or (call_args rc) ''reason'' (JStr [])) @ [CHR 0x22]
   \<and> (messages st = pre @ [AIMessage text tcs] \<and> find is_refund tcs = Some rc
      \<and> \<not> is_valid (validator (refund_prompt fmt rc)) \<longrightarrow>
    step fmt model validator run_tool ValidateRefund st
        = Inr (Agent,
               st\<lparr>messages := messages st
                     @ [ToolMessage
                          (''VALIDATION FAILED: '' @ feedback (validator (refund_prompt fmt rc))
                             @ '' Please ask the customer for a more specific reason before trying again!'')
                          (call_id rc)],
                  the_world := py_print (ReasonValidation False) (the_world st),
                  rejected := rejected st @ [call_id rc]\<rparr>))
   \<and> (dispatched st0 = [] \<and> rejected st0 = []
        \<and> invoke fmt model validator run_tool limit st0 = Inr st'
        \<and> distinct (call_ids (messages st')) \<longrightarrow>
      set (rejected st') \<inter> call_id ` set (dispatched st') = {})"
proof (intro conjI impI)
  show "refund_prompt fmt rc
     = ''Evaluate this refund reason: '' @ [CHR 0x22]
         @ py_str fmt (get_or (call_args rc) ''reason'' (JStr [])) @ [CHR 0x22]"
    by (simp add: refund_prompt_def)
next
  assume "messages st = pre @ [AIMessage text tcs] \<and> find is_refund tcs = Some rc
      \<and> \<not> is_valid (validator (refund_prompt fmt rc))"
  then show "step fmt model validator run_tool ValidateRefund st
        = Inr (Agent,
               st\<lparr>messages := messages st
                     @ [ToolMessage
                          (''VALIDATION FAILED: '' @ feedback (validator (refund_prompt fmt rc))
                             @ '' Please ask the customer for a more specific reason before trying again!'')
                          (call_id rc)],
                  the_world := py_print (ReasonValidation False) (the_world st),
                  rejected := rejected st @ [call_id rc]\<rparr>)"
    using validate_refund_rejects by blast
next
  assume a: "dispatched st0 = [] \<and> rejected st0 = []
        \<and> invoke fmt model validator run_tool limit st0 = Inr st'
        \<and> distinct (call_ids (messages st'))"
  then have "graph_inv Agent st0"
    by (simp add: graph_inv_def separated_def)
  with a show "set (rejected st') \<inter> call_id ` set (dispatched st') = {}"
    using run_graph_inv[of fmt model validator run_tool limit Agent st0 st']
    by (simp add: invoke_def)
qed

lemma retry_run:
  "invoke example_fmt retry_model example_validator example_run_tool 25 example_state
    = Inr \<lparr>messages = [HumanMessage ''I want a refund for my laptop order'',
                       AIMessage [] [vague_refund_call],
                       rejection_message,
                       AIMessage [] [specific_refund_call],
                       ToolMessage ''done'' ''call_c'',
                       AIMessage ''Your refund is on its way.'' []],
           the_client = example_client,
           the_world = \<lparr>pending = [], sent = [], last_passthrough_content = None,
                         console = [ReasonValidation False, ReasonValidation True]\<rparr>,
           dispatched = [specific_refund_call], rejected = [''call_b'']\<rparr>"
proof -
  let ?H = "HumanMessage ''I want a refund for my laptop order''"
  let ?A1 = "AIMessage [] [vague_refund_call]"
  let ?A2 = "AIMessage [] [specific_refund_call]"
  let ?W0 = "\<lparr>pending = [], sent = [], last_passthrough_content = None, console = []\<rparr>"
  let ?W1 = "\<lparr>pending = [], sent = [], last_passthrough_content = None,
               console = [ReasonValidation False]\<rparr>"
  let ?W2 = "\<lparr>pending = [], sent = [], last_passthrough_content = None,
               console = [ReasonValidation False, ReasonValidation True]\<rparr>"
  let ?step = "step example_fmt retry_model example_validator example_run_tool"
  have s1: "?step Agent example_state
      = Inr (ValidateRefund, \<lparr>messages = [?H, ?A1], the_client = example_client, the_world = ?W0,
                               dispatched = [], rejected = []\<rparr>)"
    by (simp add: step_def call_model_def retry_model_def example_state_def example_world_def
        answered_ids_def route_after_agent_def is_refund_def vague_refund_call_def)
  have s2: "?step ValidateRefund \<lparr>messages = [?H, ?A1], the_client = example_client, the_world = ?W0,
                               dispatched = [], rejected = []\<rparr>
      = Inr (Agent, \<lparr>messages = [?H, ?A1, rejection_message], the_client = example_client,
                      the_world = ?W1, dispatched = [], rejected = [''call_b'']\<rparr>)"
    by (simp add: step_def validate_refund_def is_refund_def vague_refund_call_def refund_prompt_def
        get_or_def py_str_def example_validator_def route_after_validation_def rejection_message_def
        validation_failed_def py_print_def Let_def)
  have s3: "?step Agent \<lparr>messages = [?H, ?A1, rejection_message], the_client = example_client,
                      the_world = ?W1, dispatched = [], rejected = [''call_b'']\<rparr>
      = Inr (ValidateRefund, \<lparr>messages = [?H, ?A1, rejection_message, ?A2], the_client = example_client,
                      the_world = ?W1, dispatched = [], rejected = [''call_b'']\<rparr>)"
    by (simp add: step_def call_model_def retry_model_def answered_ids_def route_after_agent_def
        is_refund_def specific_refund_call_def rejection_message_def)
  have s4: "?step ValidateRefund \<lparr>messages = [?H, ?A1, rejection_message, ?A2], the_client = example_client,
                      the_world = ?W1, dispatched = [], rejected = [''call_b'']\<rparr>
      = Inr (Tools, \<lparr>messages = [?H, ?A1, rejection_message, ?A2], the_client = example_client,
                      the_world = ?W2, dispatched = [], rejected = [''call_b'']\<rparr>)"
    by (simp add: step_def validate_refund_def is_refund_def specific_refund_call_def refund_prompt_def
        get_or_def py_str_def example_validator_def route_after_validation_def
        py_print_def Let_def)
  have s5: "?step Tools \<lparr>messages = [?H, ?A1, rejection_message, ?A2], the_client = example_client,
                      the_world = ?W2, dispatched = [], rejected = [''call_b'']\<rparr>
      = Inr (Agent, \<lparr>messages = [?H, ?A1, rejection_message, ?A2, ToolMessage ''done'' ''call_c''],
                      the_client = example_client,
                      the_world = ?W2, dispatched = [specific_refund_call], rejected = [''call_b'']\<rparr>)"
    by (simp add: step_def example_run_tool_def specific_refund_call_def)
  have s6: "?step Agent \<lparr>messages = [?H, ?A1, rejection_message, ?A2, ToolMessage ''done'' ''call_c''],
                      the_client = example_client,
                      the_world = ?W2, dispatched = [specific_refund_call], rejected = [''call_b'']\<rparr>
      = Inr (END, \<lparr>messages = [?H, ?A1, rejection_message, ?A2, ToolMessage ''done'' ''call_c'',
                                 AIMessage ''Your refund is on its way.'' []],
                      the_client = example_client,
                      the_world = ?W2, dispatched = [specific_refund_call], rejected = [''call_b'']\<rparr>)"
    by (simp add: step_def call_model_def retry_model_def answered_ids_def route_after_agent_def
        rejection_message_def)
  have "(25::nat) = Suc (Suc (Suc (Suc (Suc (Suc (Suc 18))))))" by simp
  then show ?thesis
    unfolding invoke_def
    by (simp only: run_graph_step[OF _ s1] run_graph_step[OF _ s2] run_graph_step[OF _ s3]
        run_graph_step[OF _ s4] run_graph_step[OF _ s5] run_graph_step[OF _ s6]
        run_graph_END node.distinct not_False_eq_True)
qed

text \<open>
  The theorem on the second conversation: the refund with the reason "I want a refund" is
  rejected with the validator's feedback, the refund that is then executed is the one
  with the id "call_c", and "call_b" is never run.
\<close>

theorem rejected_refund_is_not_executed_witness:
  "find is_refund [vague_refund_call] = Some vague_refund_call
   \<and> refund_prompt example_fmt vague_refund_call
       = ''Evaluate this refund reason: '' @ [CHR 0x22] @ ''I want a refund'' @ [CHR 0x22]
   \<and> \<not> is_valid (example_validator (refund_prompt example_fmt vague_refund_call))
   \<and> feedback (example_validator (refund_prompt example_fmt vague_refund_call))
       = ''The reason does not say what is wrong.''
   \<and> step example_fmt retry_model example_validator example_run_tool ValidateRefund
        (example_state\<lparr>messages := [HumanMessage ''I want a refund for my laptop order'']
                                       @ [AIMessage [] [vague_refund_call]]\<rparr>)
      = Inr (Agent,
             example_state\<lparr>messages := [HumanMessage ''I want a refund for my laptop order'',
                                         AIMessage [] [vague_refund_call],
                                         ToolMessage
                                           (''VALIDATION FAILED: The reason does not say what is wrong.''
                                              @ '' Please ask the customer for a more specific reason before trying again!'')
                                           ''call_b''],
                            the_world := py_print (ReasonValidation False) (example_world []),
                            rejected := [''call_b'']\<rparr>)
   \<and> (case invoke example_fmt retry_model example_validator example_run_tool 25 example_state of
         Inl e \<Rightarrow> False
       | Inr st' \<Rightarrow> distinct (call_ids (messages st')) \<and> rejected st' = [''call_b'']
            \<and> map call_id (dispatched st') = [''call_c'']
            \<and> set (rejected st') \<inter> call_id ` set (dispatched st') = {})"
proof -
  let ?st = "example_state\<lparr>messages := [HumanMessage ''I want a refund for my laptop order'']
                                       @ [AIMessage [] [vague_refund_call]]\<rparr>"
  let ?final = "\<lparr>messages = [HumanMessage ''I want a refund for my laptop order'',
                       AIMessage [] [vague_refund_call],
                       rejection_message,
                       AIMessage [] [specific_refund_call],
                       ToolMessage ''done'' ''call_c'',
                       AIMessage ''Your refund is on its way.'' []],
           the_client = example_client,
           the_world = \<lparr>pending = [], sent = [], last_passthrough_content = None,
                         console = [ReasonValidation False, ReasonValidation True]\<rparr>,
           dispatched = [specific_refund_call], rejected = [''call_b'']\<rparr>"
  note t = rejected_refund_is_not_executed[of example_fmt vague_refund_call ?st
      "[HumanMessage ''I want a refund for my laptop order'']"
      "[]" "[vague_refund_call]" example_validator retry_model
      example_run_tool example_state 25 ?final]
  have a: "messages ?st = [HumanMessage ''I want a refund for my laptop order''] @ [AIMessage [] [vague_refund_call]]"
    by simp
  have b: "find is_refund [vague_refund_call] = Some vague_refund_call"
    by (simp add: is_refund_def vague_refund_call_def)
  from t have "refund_prompt example_fmt vague_refund_call
     = ''Evaluate this refund reason: '' @ [CHR 0x22]
         @ py_str example_fmt (get_or (call_args vague_refund_call) ''reason'' (JStr [])) @ [CHR 0x22]"
    by blast
  then have p: "refund_prompt example_fmt vague_refund_call
       = ''Evaluate this refund reason: '' @ [CHR 0x22] @ ''I want a refund'' @ [CHR 0x22]"
    by (simp add: vague_refund_call_def get_or_def py_str_def)
  have c: "\<not> is_valid (example_validator (refund_prompt example_fmt vague_refund_call))"
    unfolding p by (simp add: example_validator_def)
  have fb: "feedback (example_validator (refund_prompt example_fmt vague_refund_call))
       = ''The reason does not say what is wrong.''"
    unfolding p by (simp add: example_validator_def)
  from t a b c have "step example_fmt retry_model example_validator example_run_tool ValidateRefund ?st
        = Inr (Agent,
               ?st\<lparr>messages := messages ?st
                     @ [ToolMessage
                          (''VALIDATION FAILED: '' @ feedback (example_validator (refund_prompt example_fmt vague_refund_call))
                             @ '' Please ask the customer for a more specific reason before trying again!'')
                          (call_id vague_refund_call)],
                  the_world := py_print (ReasonValidation False) (the_world ?st),
                  rejected := rejected ?st @ [call_id vague_refund_call]\<rparr>)"
    by blast
  then have s: "step example_fmt retry_model example_validator example_run_tool ValidateRefund ?st
      = Inr (Agent,
             example_state\<lparr>messages := [HumanMessage ''I want a refund for my laptop order'',
                                         AIMessage [] [vague_refund_call],
                                         ToolMessage
                                           (''VALIDATION FAILED: The reason does not say what is wrong.''
                                              @ '' Please ask the customer for a more specific reason before trying again!'')
                                           ''call_b''],
                            the_world := py_print (ReasonValidation False) (example_world []),
                            rejected := [''call_b'']\<rparr>)"
    unfolding fb by (simp add: example_state_def vague_refund_call_def)
  have d: "dispatched example_state = [] \<and> rejected example_state = []"
    by (simp add: example_state_def)
  have e: "distinct (call_ids (messages ?final))"
    by (simp add: call_ids_def emitted_calls_def rejection_message_def vague_refund_call_def
        specific_refund_call_def)
  from t d retry_run e have f: "set (rejected ?final) \<inter> call_id ` set (dispatched ?final) = {}"
    by blast
  have g: "rejected ?final = [''call_b'']" "map call_id (dispatched ?final) = [''call_c'']"
    by (simp_all add: specific_refund_call_def)
  show ?thesis
    using b p c fb s e f g by (simp only: retry_run sum.case) blast
qed

end
